theory Spec2Isabelle
  imports Main
begin

section \<open>JavaScript strings\<close>

text \<open>
  A JavaScript string is a sequence of UTF-16 code units. The model represents a string as
  an Isabelle \<open>string\<close>, that is a list of 8-bit characters read as the code units
  \<open>0x00\<close> to \<open>0xFF\<close> (Latin-1). Code units above \<open>0xFF\<close> are outside the model; the
  character classes below are the source's classes cut down to that range.
\<close>

definition is_space :: "char \<Rightarrow> bool" where
  \<comment> \<open>The regular expression class \<open>\s\<close>, which is also what \<open>String.prototype.trim\<close> strips:
     TAB, LF, VT, FF, CR, space and the no-break space \<open>0xA0\<close>.\<close>
  "is_space c = (c \<in> set [CHR 0x09, CHR 0x0A, CHR 0x0B, CHR 0x0C, CHR 0x0D, CHR 0x20, CHR 0xA0])"

lemma is_space_code [code]:
  "is_space (Char b0 b1 b2 b3 b4 b5 b6 b7) =
     (\<not> b6 \<and> \<not> b4 \<and>
      (if b5 then \<not> b3 \<and> \<not> b2 \<and> \<not> b1 \<and> \<not> b0
       else \<not> b7 \<and> b3 \<and> (b0 \<or> b1 \<or> b2) \<and> \<not> (b1 \<and> b2)))"
  by (auto simp: is_space_def)

definition is_hspace :: "char \<Rightarrow> bool" where
  \<comment> \<open>The class \<open>[\t ]\<close>.\<close>
  "is_hspace c = (c = CHR 0x09 \<or> c = CHR 0x20)"

definition is_digit :: "char \<Rightarrow> bool" where
  \<comment> \<open>The class \<open>\d\<close>.\<close>
  "is_digit c = (c \<in> set ''0123456789'')"

definition is_upper_az :: "char \<Rightarrow> bool" where
  \<comment> \<open>The class \<open>[A-Z]\<close>.\<close>
  "is_upper_az c = (c \<in> set ''ABCDEFGHIJKLMNOPQRSTUVWXYZ'')"

definition is_word :: "char \<Rightarrow> bool" where
  \<comment> \<open>The class \<open>\w\<close>.\<close>
  "is_word c = (c \<in> set ''abcdefghijklmnopqrstuvwxyzABCDEFGHIJKLMNOPQRSTUVWXYZ0123456789_'')"

definition lower_char :: "char \<Rightarrow> char" where
  \<comment> \<open>\<open>toLowerCase\<close> on one Latin-1 code unit: \<open>A-Z\<close> and \<open>0xC0-0xDE\<close> (but not the
     multiplication sign \<open>0xD7\<close>) move up by 32.\<close>
  "lower_char c =
     (let n = (of_char c :: nat)
      in if (65 \<le> n \<and> n \<le> 90) \<or> (192 \<le> n \<and> n \<le> 222 \<and> n \<noteq> 215)
         then char_of (n + 32) else c)"

definition toLowerCase :: "string \<Rightarrow> string" where
  "toLowerCase s = map lower_char s"

definition trim :: "string \<Rightarrow> string" where
  "trim s = rev (dropWhile is_space (rev (dropWhile is_space s)))"

fun starts_with :: "string \<Rightarrow> string \<Rightarrow> bool" where
  \<comment> \<open>Does \<open>s\<close> begin with the literal \<open>p\<close>?\<close>
  "starts_with [] s = True"
| "starts_with (p # ps) [] = False"
| "starts_with (p # ps) (c # cs) = (p = c \<and> starts_with ps cs)"

lemma starts_with_take: "starts_with p s = (take (length p) s = p)"
  by (induction p s rule: starts_with.induct) auto

fun drop_str :: "string \<Rightarrow> string \<Rightarrow> string" where
  \<comment> \<open>\<open>s.substring(m.length)\<close>\<close>
  "drop_str [] s = s"
| "drop_str (a # m) [] = []"
| "drop_str (a # m) (c # cs) = drop_str m cs"

lemma drop_str_drop: "drop_str m s = drop (length m) s"
  by (induction m s rule: drop_str.induct) auto

text \<open>\<open>s.split(sep)\<close> for a non-empty literal separator; \<open>''''.split(sep)\<close> is \<open>['''']\<close>.\<close>

function split_from :: "string \<Rightarrow> string \<Rightarrow> string \<Rightarrow> string list" where
  "split_from sep cur [] = [rev cur]"
| "split_from sep cur (c # cs) =
     (if sep \<noteq> [] \<and> starts_with sep (c # cs)
      then rev cur # split_from sep [] (drop_str sep (c # cs))
      else split_from sep (c # cur) cs)"
  by pat_completeness auto
termination
  by (relation "measure (\<lambda>(sep, cur, s). length s)") (auto simp: drop_str_drop)

definition split_str :: "string \<Rightarrow> string \<Rightarrow> string list" where
  "split_str sep s = split_from sep [] s"

text \<open>\<open>xs.join(glue)\<close> on an array of strings.\<close>

fun join :: "string \<Rightarrow> string list \<Rightarrow> string" where
  "join glue [] = []"
| "join glue [x] = x"
| "join glue (x # y # ys) = x @ glue @ join glue (y # ys)"

text \<open>
  \<open>s.replace(re, d)\<close> for a regular expression without the \<open>g\<close> flag replaces the leftmost
  match only. A regular expression literal of the source is modelled by its matcher: given
  the rest of the subject from a start position, the matcher returns the length of the match
  that starts there, or \<open>None\<close>. \<open>replace_first\<close> tries the start positions from left to
  right; \<open>replace_anchored\<close> is for an expression that begins with \<open>^\<close>. None of the
  replacement strings used with them contains a \<open>$\<close>, so they are inserted as they are.
\<close>

fun replace_first :: "(string \<Rightarrow> nat option) \<Rightarrow> string \<Rightarrow> string \<Rightarrow> string" where
  "replace_first m d [] = (case m [] of Some n \<Rightarrow> d | None \<Rightarrow> [])"
| "replace_first m d (c # cs) =
     (case m (c # cs) of
        Some n \<Rightarrow> d @ drop n (c # cs)
      | None \<Rightarrow> c # replace_first m d cs)"

definition replace_anchored :: "(string \<Rightarrow> nat option) \<Rightarrow> string \<Rightarrow> string \<Rightarrow> string" where
  "replace_anchored m d s = (case m s of Some n \<Rightarrow> d @ drop n s | None \<Rightarrow> s)"

fun matches_somewhere :: "(string \<Rightarrow> nat option) \<Rightarrow> string \<Rightarrow> bool" where
  \<comment> \<open>\<open>s.match(re)\<close> used as a condition: is there a start position with a match?\<close>
  "matches_somewhere m [] = (m [] \<noteq> None)"
| "matches_somewhere m (c # cs) = (m (c # cs) \<noteq> None \<or> matches_somewhere m cs)"

section \<open>The cleanup pass: \<open>cleanupRender\<close>\<close>

text \<open>The twelve regular expressions of \<open>cleanupRender\<close>, in the order of the source.\<close>

definition re_trailing :: "string \<Rightarrow> nat option" where
  \<comment> \<open>\<open>/[\s,}]+$/\<close>: a non-empty run of the class that reaches the end of the string.\<close>
  "re_trailing s =
     (if s \<noteq> [] \<and> list_all (\<lambda>c. is_space c \<or> c = CHR '','' \<or> c = CHR ''}'') s
      then Some (length s) else None)"

definition re_leading :: "string \<Rightarrow> nat option" where
  \<comment> \<open>\<open>/^[\s,]+/\<close>\<close>
  "re_leading s =
     (let a = takeWhile (\<lambda>c. is_space c \<or> c = CHR '','') s
      in if a = [] then None else Some (length a))"

definition re_dash :: "string \<Rightarrow> nat option" where
  \<comment> \<open>\<open>/^- /\<close>\<close>
  "re_dash s = (if starts_with ''- '' s then Some 2 else None)"

definition re_comma_space_comma :: "string \<Rightarrow> nat option" where
  \<comment> \<open>\<open>/,\s*,/\<close>\<close>
  "re_comma_space_comma s =
     (case s of
        [] \<Rightarrow> None
      | c # r \<Rightarrow>
          if c = CHR '','' then
            (let w = takeWhile is_space r
             in if starts_with '','' (drop (length w) r) then Some (length w + 2) else None)
          else None)"

definition re_space_comma_space :: "string \<Rightarrow> nat option" where
  \<comment> \<open>\<open>/[\t ]+,[\t ]+/\<close>\<close>
  "re_space_comma_space s =
     (let a = takeWhile is_hspace s; r = drop (length a) s
      in if a = [] \<or> \<not> starts_with '','' r then None
         else (let b = takeWhile is_hspace (drop 1 r)
               in if b = [] then None else Some (length a + 1 + length b)))"

definition re_spaces :: "string \<Rightarrow> nat option" where
  \<comment> \<open>\<open>/[\t ][\t ]+/\<close>\<close>
  "re_spaces s =
     (let a = takeWhile is_hspace s in if 2 \<le> length a then Some (length a) else None)"

definition re_space_newline :: "string \<Rightarrow> nat option" where
  \<comment> \<open>\<open>/[\t ]\n/\<close>\<close>
  "re_space_newline s =
     (case s of
        c # d # r \<Rightarrow> if is_hspace c \<and> d = CHR 0x0A then Some 2 else None
      | _ \<Rightarrow> None)"

definition re_newline_comma :: "string \<Rightarrow> nat option" where
  \<comment> \<open>\<open>/\n,/\<close>\<close>
  "re_newline_comma s = (if starts_with [CHR 0x0A, CHR '',''] s then Some 2 else None)"

definition re_commas :: "string \<Rightarrow> nat option" where
  \<comment> \<open>\<open>/,,+/\<close>\<close>
  "re_commas s =
     (let a = takeWhile (\<lambda>c. c = CHR '','') s
      in if 2 \<le> length a then Some (length a) else None)"

definition re_comma_newline :: "string \<Rightarrow> nat option" where
  \<comment> \<open>\<open>/,\n/\<close>\<close>
  "re_comma_newline s = (if starts_with [CHR '','', CHR 0x0A] s then Some 2 else None)"

definition re_newline_spaces :: "string \<Rightarrow> nat option" where
  \<comment> \<open>\<open>/\n[\t ]+/\<close>\<close>
  "re_newline_spaces s =
     (case s of
        [] \<Rightarrow> None
      | c # r \<Rightarrow>
          if c = CHR 0x0A then
            (let b = takeWhile is_hspace r in if b = [] then None else Some (1 + length b))
          else None)"

definition re_newlines :: "string \<Rightarrow> nat option" where
  \<comment> \<open>\<open>/\n\n+/\<close>\<close>
  "re_newlines s =
     (let a = takeWhile (\<lambda>c. c = CHR 0x0A) s
      in if 2 \<le> length a then Some (length a) else None)"

text \<open>
  The table \<open>replacements\<close> of the source: each entry applies its expression once
  (\<open>text.replace(s, d)\<close>, no \<open>g\<close> flag).
\<close>

definition replacements :: "(string \<Rightarrow> string) list" where
  "replacements =
     [ replace_first re_trailing [],
       replace_anchored re_leading [],
       replace_anchored re_dash [],
       replace_first re_comma_space_comma '', '',
       replace_first re_space_comma_space '', '',
       replace_first re_spaces '' '',
       replace_first re_space_newline [CHR 0x0A],
       replace_first re_newline_comma [CHR 0x0A],
       replace_first re_commas '','',
       replace_first re_comma_newline [CHR 0x0A],
       replace_first re_newline_spaces [CHR 0x0A],
       replace_first re_newlines [CHR 0x0A] ]"

text \<open>
  \<open>dedupe\<close> keeps its \<open>seen\<close> table in a plain object, so \<open>seen[chunk]\<close> also finds the
  properties every object inherits from \<open>Object.prototype\<close>: a chunk with one of these names
  counts as seen from the start. The model keeps the chunks stored so far in a list.
\<close>

definition object_prototype_names :: "string list" where
  "object_prototype_names =
     [ ''constructor'', ''hasOwnProperty'', ''isPrototypeOf'', ''propertyIsEnumerable'',
       ''toLocaleString'', ''toString'', ''valueOf'', ''__defineGetter__'',
       ''__defineSetter__'', ''__lookupGetter__'', ''__lookupSetter__'', ''__proto__'' ]"

definition seen_has :: "string list \<Rightarrow> string \<Rightarrow> bool" where
  "seen_has seen chunk = (chunk \<in> set seen \<or> chunk \<in> set object_prototype_names)"

fun dedupe_loop :: "(string \<Rightarrow> string) \<Rightarrow> string list \<Rightarrow> string list \<Rightarrow> string list" where
  "dedupe_loop modifier seen [] = []"
| "dedupe_loop modifier seen (x # xs) =
     (let chunk = trim x
      in if toLowerCase chunk = ''new york''
         then chunk # dedupe_loop modifier (chunk # seen) xs
         else if \<not> seen_has seen chunk
         then modifier chunk # dedupe_loop modifier (chunk # seen) xs
         else dedupe_loop modifier seen xs)"

definition dedupe :: "string list \<Rightarrow> string \<Rightarrow> (string \<Rightarrow> string) \<Rightarrow> string" where
  "dedupe inputChunks glue modifier = join glue (dedupe_loop modifier [] inputChunks)"

definition dedupe_text :: "string \<Rightarrow> string" where
  \<comment> \<open>The second statement of the loop body: lines are de-duplicated, and within each kept
     line its \<open>'', ''\<close>-separated segments.\<close>
  "dedupe_text text =
     dedupe (split_str [CHR 0x0A] text) [CHR 0x0A]
       (\<lambda>s. dedupe (split_str '', '' s) '', '' (\<lambda>s. s))"

fun cleanup_loop :: "(string \<Rightarrow> string) list \<Rightarrow> string \<Rightarrow> string" where
  "cleanup_loop [] text = text"
| "cleanup_loop (r # rs) text = cleanup_loop rs (dedupe_text (r text))"

definition cleanupRender :: "string \<Rightarrow> string" where
  "cleanupRender text = trim (cleanup_loop replacements text)"

section \<open>Errors\<close>

text \<open>
  A thrown exception is a value of type \<open>error\<close>; a function that can throw returns
  \<open>error + 'a\<close>, the error on the left. \<open>Unmodelled\<close> is not an exception of the program:
  it marks a behaviour of the JavaScript engine that the model does not describe (properties
  inherited from the built-in prototypes, numbers that are not small integers). Nothing is
  claimed about a run that reaches it.
\<close>

datatype error =
    TypeError
  | SyntaxError
  | InvalidTags string
  | UnclosedTag int
  | UnopenedSection string int
  | UnclosedSection string int
  | Unmodelled

type_synonym 'a res = "error + 'a"

definition and_then :: "'a res \<Rightarrow> ('a \<Rightarrow> 'b res) \<Rightarrow> 'b res" where
  "and_then r f = (case r of Inl e \<Rightarrow> Inl e | Inr x \<Rightarrow> f x)"

section \<open>The template compiler: \<open>parseTemplate\<close>\<close>

subsection \<open>Tokens\<close>

text \<open>
  A token of the source is an array \<open>[type, value, start, end, ...]\<close>. The type is the symbol
  of the tag (\<open>{\<close> is turned into \<open>&\<close> by the parser), \<open>name\<close> for a tag without a symbol
  and \<open>text\<close> for text outside tags. Indices into the template are JavaScript numbers,
  modelled as integers. A partial token (\<open>>\<close>) carries three more elements: the indentation
  before it, its index among the tags of its line, and whether the line has a non-space
  character.
\<close>

datatype tag = TText | TName | THash | TCaret | TSlash | TGt | TAmp | TEq | TBang

datatype ftoken =
  FToken (f_type : tag) (f_value : string) (f_start : int) (f_end : int)
         (f_partial : "(string \<times> int \<times> bool) option")

text \<open>
  \<open>nestTokens\<close> gives a section token (\<open>#\<close> or \<open>^\<close>) two more elements: the array of the
  tokens inside the section (\<open>token[4]\<close>) and the index in the template where its closing
  tag starts (\<open>token[5]\<close>). Both are absent (\<open>undefined\<close>) in every other token.
\<close>

datatype token =
  Token (t_tok : ftoken) (t_children : "token list option") (t_close : "int option")

subsection \<open>The scanner\<close>

text \<open>
  The tags in force are two literal strings; \<open>compileTags\<close> turns them into the expressions
  \<open>open\s*\<close>, \<open>\s*close\<close> and \<open>\s*}close\<close>, with every special character escaped. So each
  expression the parser scans with is a literal, before or after a run of white space.
\<close>

fun until_lit :: "string \<Rightarrow> string \<Rightarrow> string" where
  \<comment> \<open>The text before the first occurrence of a literal (all of it when there is none).\<close>
  "until_lit x [] = []"
| "until_lit x (c # cs) = (if starts_with x (c # cs) then [] else c # until_lit x cs)"

fun match_ws_lit :: "string \<Rightarrow> string \<Rightarrow> string option" where
  \<comment> \<open>The expression \<open>\s*x\<close> matched at the start of the string: the text matched. The
     star is greedy and gives white space back only when the literal cannot follow.\<close>
  "match_ws_lit x [] = (if x = [] then Some [] else None)"
| "match_ws_lit x (c # cs) =
     (if is_space c
      then (case match_ws_lit x cs of
              Some m \<Rightarrow> Some (c # m)
            | None \<Rightarrow> if starts_with x (c # cs) then Some x else None)
      else if starts_with x (c # cs) then Some x else None)"

text \<open>
  \<open>Scanner.prototype.scan\<close> returns the matched text when the expression matches at the
  current position and the empty string otherwise; \<open>scanUntil\<close> returns the text skipped
  up to the next match, which is the whole tail when there is none. Both are given here on
  the tail; \<open>consume\<close> below moves the scanner past the text returned.
\<close>

definition scan_open :: "string \<Rightarrow> string \<Rightarrow> string" where
  \<comment> \<open>\<open>scan(openingTagRe)\<close>, the expression being \<open>open\s*\<close>\<close>
  "scan_open otag s =
     (if starts_with otag s then otag @ takeWhile is_space (drop_str otag s) else [])"

definition scan_ws_lit :: "string \<Rightarrow> string \<Rightarrow> string" where
  \<comment> \<open>\<open>scan\<close> with an expression \<open>\s*x\<close>\<close>
  "scan_ws_lit x s = (case match_ws_lit x s of None \<Rightarrow> [] | Some m \<Rightarrow> m)"

definition scan_tag :: "string \<Rightarrow> string" where
  \<comment> \<open>\<open>scan(tagRe)\<close>, \<open>tagRe = /#|\^|\/|>|\{|&|=|!/\<close>\<close>
  "scan_tag s = (case s of [] \<Rightarrow> [] | c # _ \<Rightarrow> if c \<in> set ''#^/>{&=!'' then [c] else [])"

definition scan_white :: "string \<Rightarrow> string" where
  \<comment> \<open>\<open>scan(whiteRe)\<close>, \<open>whiteRe = /\s*/\<close>\<close>
  "scan_white s = takeWhile is_space s"

definition until_open :: "string \<Rightarrow> string \<Rightarrow> string" where
  \<comment> \<open>\<open>scanUntil(openingTagRe)\<close>\<close>
  "until_open otag s = until_lit otag s"

fun until_ws_lit :: "string \<Rightarrow> string \<Rightarrow> string" where
  \<comment> \<open>\<open>scanUntil\<close> with an expression \<open>\s*x\<close>: the text before the leftmost start
     position of a match.\<close>
  "until_ws_lit x [] = []"
| "until_ws_lit x (c # cs) =
     (if match_ws_lit x (c # cs) = None then c # until_ws_lit x cs else [])"

subsection \<open>The parser state\<close>

text \<open>
  The variables of \<open>parseTemplate\<close> and its scanner. \<open>p_tokens\<close> is the buffer \<open>tokens\<close>
  with the newest token first, and \<open>p_count\<close> is \<open>tokens.length\<close>; an entry removed by
  \<open>delete tokens[i]\<close> is \<open>None\<close>. \<open>p_spaces\<close> and \<open>p_sections\<close> are stacks with the top
  first. \<open>p_indentation\<close> holds the string \<open>indentation\<close> reversed.
\<close>

datatype pstate =
  PState (p_tail : string) (p_pos : int) (p_tokens : "ftoken option list") (p_count : int)
         (p_spaces : "int list") (p_sections : "ftoken list")
         (p_hasTag : bool) (p_nonSpace : bool) (p_lineHasNonSpace : bool)
         (p_indentation : string) (p_tagIndex : int)
         (p_openTag : string) (p_closeTag : string)

fun consume :: "string \<Rightarrow> pstate \<Rightarrow> pstate" where
  \<comment> \<open>What \<open>scan\<close> and \<open>scanUntil\<close> do to the scanner for the text \<open>m\<close> they return.\<close>
  "consume m (PState tal pos toks cnt sp secs ht ns lns ind ti ot ct) =
     PState (drop_str m tal) (pos + int (length m)) toks cnt sp secs ht ns lns ind ti ot ct"

fun push_token :: "ftoken \<Rightarrow> pstate \<Rightarrow> pstate" where
  \<comment> \<open>\<open>tokens.push(token)\<close>\<close>
  "push_token t (PState tal pos toks cnt sp secs ht ns lns ind ti ot ct) =
     PState tal pos (Some t # toks) (cnt + 1) sp secs ht ns lns ind ti ot ct"

fun stripSpace :: "pstate \<Rightarrow> pstate" where
  "stripSpace (PState tal pos toks cnt sp secs ht ns lns ind ti ot ct) =
     (if ht \<and> \<not> ns
      then PState tal pos (fold (\<lambda>i ts. ts[nat (cnt - 1 - i) := None]) sp toks) cnt []
             secs False False lns ind ti ot ct
      else PState tal pos toks cnt [] secs False False lns ind ti ot ct)"

fun note_char :: "bool \<Rightarrow> char \<Rightarrow> pstate \<Rightarrow> pstate" where
  \<comment> \<open>The \<open>if (isWhitespace(chr))\<close> of the character loop; the flag is its condition.\<close>
  "note_char True chr (PState tal pos toks cnt sp secs ht ns lns ind ti ot ct) =
     PState tal pos toks cnt (cnt # sp) secs ht ns lns (chr # ind) ti ot ct"
| "note_char False chr (PState tal pos toks cnt sp secs ht ns lns ind ti ot ct) =
     PState tal pos toks cnt sp secs ht True True (CHR 0x20 # ind) ti ot ct"

fun new_line :: "bool \<Rightarrow> pstate \<Rightarrow> pstate" where
  \<comment> \<open>The \<open>if (chr === '\n')\<close> of the character loop; the flag is its condition.\<close>
  "new_line True st =
     (case stripSpace st of
        PState tal pos toks cnt sp secs ht ns lns ind ti ot ct \<Rightarrow>
          PState tal pos toks cnt sp secs ht ns False [] 0 ot ct)"
| "new_line False st = st"

fun text_chars :: "string \<Rightarrow> int \<Rightarrow> pstate \<Rightarrow> pstate" where
  \<comment> \<open>The loop over the characters of the text before a tag; \<open>start\<close> counts along.\<close>
  "text_chars [] start st = st"
| "text_chars (chr # rest) start st =
     text_chars rest (start + 1)
       (new_line (chr = CHR 0x0A)
          (push_token (FToken TText [chr] start (start + 1) None)
             (note_char (is_space chr) chr st)))"

text \<open>
  \<open>value.split(spaceRe, 2)\<close> with \<open>spaceRe = /\s+/\<close>: the pieces between the runs of white
  space, at most two of them.
\<close>

function split_ws_from :: "string \<Rightarrow> string \<Rightarrow> string list" where
  "split_ws_from cur [] = [rev cur]"
| "split_ws_from cur (c # cs) =
     (if is_space c then rev cur # split_ws_from [] (dropWhile is_space cs)
      else split_ws_from (c # cur) cs)"
  by pat_completeness auto
termination
  by (relation "measure (\<lambda>(cur, s). length s)")
     (auto simp: length_dropWhile_le less_Suc_eq_le)

fun set_tags :: "string list \<Rightarrow> pstate \<Rightarrow> pstate res" where
  "set_tags [a, b] (PState tal pos toks cnt sp secs ht ns lns ind ti ot ct) =
     Inr (PState tal pos toks cnt sp secs ht ns lns ind ti a b)"
| "set_tags ts st = Inl (InvalidTags (join '','' ts))"

definition compileTags :: "string \<Rightarrow> pstate \<Rightarrow> pstate res" where
  \<comment> \<open>Called with a string (the value of a \<open>=\<close> tag).\<close>
  "compileTags tagsToCompile st = set_tags (take 2 (split_ws_from [] tagsToCompile)) st"

subsection \<open>One tag\<close>

text \<open>
  The body of the \<open>while\<close> loop, statement by statement. A function that branches on a
  condition takes the value the condition is computed from as its first argument.
\<close>

definition tag_of :: "string \<Rightarrow> tag" where
  \<comment> \<open>\<open>type = scanner.scan(tagRe) || 'name'\<close>, with \<open>{\<close> already read as \<open>&\<close>.\<close>
  "tag_of ty =
     (if ty = ''#'' then THash else if ty = ''^'' then TCaret else if ty = ''/'' then TSlash
      else if ty = ''>'' then TGt else if ty = ''{'' \<or> ty = ''&'' then TAmp
      else if ty = ''='' then TEq else if ty = ''!'' then TBang else TName)"

definition skip_to_close :: "pstate \<Rightarrow> pstate" where
  \<comment> \<open>\<open>scanner.scanUntil(closingTagRe)\<close>, the result dropped.\<close>
  "skip_to_close st = consume (until_ws_lit (p_closeTag st) (p_tail st)) st"

definition skip_lit :: "string \<Rightarrow> pstate \<Rightarrow> pstate" where
  \<comment> \<open>\<open>scanner.scan(equalsRe)\<close> and \<open>scanner.scan(curlyRe)\<close>, the result dropped.\<close>
  "skip_lit x st = consume (scan_ws_lit x (p_tail st)) st"

definition value_stop :: "string \<Rightarrow> string \<Rightarrow> string" where
  \<comment> \<open>The literal of the expression that ends the value: \<open>equalsRe\<close> in a \<open>=\<close> tag,
     \<open>closingCurlyRe\<close> in a \<open>{\<close> tag, \<open>closingTagRe\<close> in any other.\<close>
  "value_stop ty ctag = (if ty = ''='' then ''='' else if ty = ''{'' then ''}'' @ ctag else ctag)"

definition tag_value :: "string \<Rightarrow> pstate \<Rightarrow> string" where
  \<comment> \<open>"Get the tag value": the text that \<open>value\<close> is set to.\<close>
  "tag_value ty st = until_ws_lit (value_stop ty (p_closeTag st)) (p_tail st)"

fun skip_rest :: "bool \<Rightarrow> bool \<Rightarrow> pstate \<Rightarrow> pstate" where
  \<comment> \<open>What a \<open>=\<close> tag (first flag) and a \<open>{\<close> tag (second flag) scan after the value.\<close>
  "skip_rest True b st = skip_to_close (skip_lit ''='' st)"
| "skip_rest False True st = skip_to_close (skip_lit ''}'' st)"
| "skip_rest False False st = st"

definition after_value :: "string \<Rightarrow> string \<Rightarrow> pstate \<Rightarrow> pstate" where
  \<comment> \<open>The scanner after "Get the tag value", \<open>v\<close> being the value read.\<close>
  "after_value ty v st = skip_rest (ty = ''='') (ty = ''{'') (consume v st)"

fun add_tag :: "ftoken \<Rightarrow> pstate \<Rightarrow> pstate" where
  \<comment> \<open>\<open>tagIndex++; tokens.push(token)\<close>\<close>
  "add_tag t (PState tal pos toks cnt sp secs ht ns lns ind ti ot ct) =
     PState tal pos (Some t # toks) (cnt + 1) sp secs ht ns lns ind (ti + 1) ot ct"

fun pop_section :: "string \<Rightarrow> int \<Rightarrow> pstate \<Rightarrow> pstate res" where
  \<comment> \<open>The branch \<open>type === '/'\<close>: "Check section nesting."\<close>
  "pop_section v start (PState tal pos toks cnt sp [] ht ns lns ind ti ot ct) =
     Inl (UnopenedSection v start)"
| "pop_section v start (PState tal pos toks cnt sp (openSection # rest) ht ns lns ind ti ot ct) =
     (if f_value openSection \<noteq> v then Inl (UnclosedSection (f_value openSection) start)
      else Inr (PState tal pos toks cnt sp rest ht ns lns ind ti ot ct))"

fun after_tag :: "tag \<Rightarrow> string \<Rightarrow> int \<Rightarrow> ftoken \<Rightarrow> pstate \<Rightarrow> pstate res" where
  \<comment> \<open>The last \<open>if\<close> chain of the loop body, after the token was pushed.\<close>
  "after_tag THash v start tok (PState tal pos toks cnt sp secs ht ns lns ind ti ot ct) =
     Inr (PState tal pos toks cnt sp (tok # secs) ht ns lns ind ti ot ct)"
| "after_tag TCaret v start tok (PState tal pos toks cnt sp secs ht ns lns ind ti ot ct) =
     Inr (PState tal pos toks cnt sp (tok # secs) ht ns lns ind ti ot ct)"
| "after_tag TSlash v start tok st = pop_section v start st"
| "after_tag TName v start tok (PState tal pos toks cnt sp secs ht ns lns ind ti ot ct) =
     Inr (PState tal pos toks cnt sp secs ht True lns ind ti ot ct)"
| "after_tag TAmp v start tok (PState tal pos toks cnt sp secs ht ns lns ind ti ot ct) =
     Inr (PState tal pos toks cnt sp secs ht True lns ind ti ot ct)"
| "after_tag TEq v start tok st = compileTags v st"
| "after_tag ty v start tok st = Inr st"

definition make_token :: "string \<Rightarrow> string \<Rightarrow> int \<Rightarrow> pstate \<Rightarrow> ftoken" where
  \<comment> \<open>The token of a tag; the state is the one after the closing tag was scanned.\<close>
  "make_token ty v start st =
     FToken (tag_of ty) v start (p_pos st)
       (if ty = ''>''
        then Some (rev (p_indentation st), p_tagIndex st, p_lineHasNonSpace st)
        else None)"

definition finish_tag :: "string \<Rightarrow> string \<Rightarrow> int \<Rightarrow> pstate \<Rightarrow> pstate res" where
  \<comment> \<open>From the construction of the token to the end of the loop body.\<close>
  "finish_tag ty v start st =
     after_tag (tag_of ty) v start (make_token ty v start st) (add_tag (make_token ty v start st) st)"

fun close_tag :: "string \<Rightarrow> string \<Rightarrow> string \<Rightarrow> int \<Rightarrow> pstate \<Rightarrow> pstate res" where
  \<comment> \<open>"Match the closing tag": the first argument is what \<open>scan(closingTagRe)\<close> returns.\<close>
  "close_tag [] ty v start st = Inl (UnclosedTag (p_pos st))"
| "close_tag (c # m) ty v start st = finish_tag ty v start (consume (c # m) st)"

definition read_close :: "string \<Rightarrow> string \<Rightarrow> int \<Rightarrow> pstate \<Rightarrow> pstate res" where
  "read_close ty v start st = close_tag (scan_ws_lit (p_closeTag st) (p_tail st)) ty v start st"

definition read_value :: "string \<Rightarrow> int \<Rightarrow> pstate \<Rightarrow> pstate res" where
  \<comment> \<open>"Get the tag value" and what follows; \<open>ty\<close> is the text \<open>scan(tagRe)\<close> returned.\<close>
  "read_value ty start st =
     read_close ty (tag_value ty st) start (after_value ty (tag_value ty st) st)"

definition skip_white :: "pstate \<Rightarrow> pstate" where
  \<comment> \<open>\<open>scanner.scan(whiteRe)\<close>\<close>
  "skip_white st = consume (scan_white (p_tail st)) st"

definition parse_tag :: "int \<Rightarrow> pstate \<Rightarrow> pstate res" where
  \<comment> \<open>The loop body from "Get the tag type" on; \<open>start\<close> is where the opening tag began.\<close>
  "parse_tag start st =
     read_value (scan_tag (p_tail st)) start (skip_white (consume (scan_tag (p_tail st)) st))"

subsection \<open>The main loop\<close>

fun set_hasTag :: "pstate \<Rightarrow> pstate" where
  "set_hasTag (PState tal pos toks cnt sp secs ht ns lns ind ti ot ct) =
     PState tal pos toks cnt sp secs True ns lns ind ti ot ct"

fun continue_with :: "pstate res \<Rightarrow> (bool \<times> pstate) res" where
  "continue_with (Inl e) = Inl e"
| "continue_with (Inr st) = Inr (True, st)"

fun open_tag :: "string \<Rightarrow> int \<Rightarrow> pstate \<Rightarrow> (bool \<times> pstate) res" where
  \<comment> \<open>"Match the opening tag": the first argument is what \<open>scan(openingTagRe)\<close> returns.
     The flag of the result is \<open>False\<close> when the round ends in \<open>break\<close>.\<close>
  "open_tag [] start st = Inr (False, st)"
| "open_tag (c # m) start st = continue_with (parse_tag start (set_hasTag (consume (c # m) st)))"

definition read_open :: "int \<Rightarrow> pstate \<Rightarrow> (bool \<times> pstate) res" where
  "read_open start st = open_tag (scan_open (p_openTag st) (p_tail st)) start st"

definition parse_text :: "string \<Rightarrow> pstate \<Rightarrow> (bool \<times> pstate) res" where
  \<comment> \<open>One round of the \<open>while\<close> loop, \<open>v\<close> being the text before the next tag.\<close>
  "parse_text v st = read_open (p_pos st + int (length v)) (text_chars v (p_pos st) (consume v st))"

definition parse_step :: "pstate \<Rightarrow> (bool \<times> pstate) res" where
  "parse_step st = parse_text (until_open (p_openTag st) (p_tail st)) st"

lemma tail_consume: "length (p_tail (consume m st)) \<le> length (p_tail st)"
  by (cases st) (simp add: drop_str_drop)

lemma tail_stripSpace: "p_tail (stripSpace st) = p_tail st"
  by (cases st) simp

lemma tail_push_token: "p_tail (push_token t st) = p_tail st"
  by (cases st) simp

lemma tail_note_char: "p_tail (note_char b c st) = p_tail st"
  by (cases st; cases b) simp_all

lemma tail_new_line: "p_tail (new_line b st) = p_tail st"
  by (cases st; cases b) simp_all

lemma tail_text_chars: "p_tail (text_chars v start st) = p_tail st"
  by (induction v arbitrary: start st)
     (simp_all add: tail_stripSpace tail_push_token tail_note_char tail_new_line)

lemma tail_skip_to_close: "length (p_tail (skip_to_close st)) \<le> length (p_tail st)"
  by (simp add: skip_to_close_def tail_consume)

lemma tail_skip_lit: "length (p_tail (skip_lit x st)) \<le> length (p_tail st)"
  by (simp add: skip_lit_def tail_consume)

lemma tail_skip_rest: "length (p_tail (skip_rest a b st)) \<le> length (p_tail st)"
proof (cases a)
  case True
  then show ?thesis
    using tail_skip_to_close[of "skip_lit ''='' st"] tail_skip_lit[of "''=''" st] by simp
next
  case False
  then show ?thesis
    using tail_skip_to_close[of "skip_lit ''}'' st"] tail_skip_lit[of "''}''" st]
    by (cases b) simp_all
qed

lemma tail_after_value: "length (p_tail (after_value ty v st)) \<le> length (p_tail st)"
  unfolding after_value_def
  using tail_skip_rest[of "ty = ''=''" "ty = ''{''" "consume v st"] tail_consume[of v st]
  by linarith

lemma tail_set_tags: "set_tags ts st = Inr st' \<Longrightarrow> p_tail st' = p_tail st"
  by (induction ts st rule: set_tags.induct) auto

lemma tail_pop_section: "pop_section v start st = Inr st' \<Longrightarrow> p_tail st' = p_tail st"
  by (induction v start st rule: pop_section.induct) (auto split: if_splits)

lemma tail_after_tag: "after_tag ty v start tok st = Inr st' \<Longrightarrow> p_tail st' = p_tail st"
  by (cases st; cases ty)
     (auto simp: compileTags_def dest: tail_set_tags tail_pop_section)

lemma tail_add_tag: "p_tail (add_tag t st) = p_tail st"
  by (cases st) simp

lemma tail_finish_tag:
  "finish_tag ty v start st = Inr st' \<Longrightarrow> p_tail st' = p_tail st"
  by (auto simp: finish_tag_def tail_add_tag dest!: tail_after_tag)

lemma tail_close_tag:
  "close_tag m ty v start st = Inr st' \<Longrightarrow> length (p_tail st') \<le> length (p_tail st)"
  by (cases m) (auto simp: tail_consume dest!: tail_finish_tag)

lemma tail_parse_tag:
  assumes "parse_tag start st = Inr st'"
  shows "length (p_tail st') \<le> length (p_tail st)"
proof -
  define ty where "ty = scan_tag (p_tail st)"
  define s1 where "s1 = consume ty st"
  define s2 where "s2 = skip_white s1"
  define s3 where "s3 = after_value ty (tag_value ty s2) s2"
  have "close_tag (scan_ws_lit (p_closeTag s3) (p_tail s3)) ty (tag_value ty s2) start s3 = Inr st'"
    using assms
    by (simp add: parse_tag_def read_value_def read_close_def ty_def s1_def s2_def s3_def)
  then have "length (p_tail st') \<le> length (p_tail s3)"
    by (rule tail_close_tag)
  moreover have "length (p_tail s3) \<le> length (p_tail s2)"
    unfolding s3_def by (rule tail_after_value)
  moreover have "length (p_tail s2) \<le> length (p_tail s1)"
    unfolding s2_def skip_white_def by (rule tail_consume)
  moreover have "length (p_tail s1) \<le> length (p_tail st)"
    unfolding s1_def by (rule tail_consume)
  ultimately show ?thesis by linarith
qed

lemma scan_open_length: "length (scan_open otag s) \<le> length s"
proof (cases "starts_with otag s")
  case True
  have "length (takeWhile is_space (drop (length otag) s)) \<le> length s - length otag"
    using length_takeWhile_le[of is_space "drop (length otag) s"] by simp
  moreover have "length otag \<le> length s"
  proof -
    have "length (take (length otag) s) = length otag"
      using True by (simp add: starts_with_take)
    then show ?thesis by simp
  qed
  ultimately show ?thesis using True by (simp add: scan_open_def drop_str_drop)
next
  case False
  then show ?thesis by (simp add: scan_open_def)
qed

lemma tail_set_hasTag: "p_tail (set_hasTag st) = p_tail st"
  by (cases st) simp

lemma tail_consume_eq: "p_tail (consume m st) = drop (length m) (p_tail st)"
  by (cases st) (simp add: drop_str_drop)

lemma tail_open_tag:
  assumes "open_tag m start st = Inr (True, st')" and "length m \<le> length (p_tail st)"
  shows "length (p_tail st') < length (p_tail st)"
proof (cases m)
  case Nil
  with assms show ?thesis by simp
next
  case (Cons c m')
  then have "parse_tag start (set_hasTag (consume m st)) = Inr st'"
    using assms(1) by (cases "parse_tag start (set_hasTag (consume m st))") auto
  then have "length (p_tail st') \<le> length (p_tail (set_hasTag (consume m st)))"
    by (rule tail_parse_tag)
  then have "length (p_tail st') \<le> length (p_tail st) - length m"
    by (simp add: tail_set_hasTag tail_consume_eq)
  moreover have "0 < length m" using Cons by simp
  ultimately show ?thesis using assms(2) by linarith
qed

lemma tail_parse_step:
  assumes "parse_step st = Inr (True, st')"
  shows "length (p_tail st') < length (p_tail st)"
proof -
  define v where "v = until_open (p_openTag st) (p_tail st)"
  define s1 where "s1 = text_chars v (p_pos st) (consume v st)"
  have "open_tag (scan_open (p_openTag s1) (p_tail s1)) (p_pos st + int (length v)) s1
          = Inr (True, st')"
    using assms by (simp add: parse_step_def parse_text_def read_open_def v_def s1_def)
  then have "length (p_tail st') < length (p_tail s1)"
    by (rule tail_open_tag) (rule scan_open_length)
  then show ?thesis
    using tail_consume[of v st] by (simp add: s1_def tail_text_chars)
qed

function parse_loop :: "pstate \<Rightarrow> pstate res" where
  "parse_loop st =
     (if p_tail st = [] then Inr st
      else (case parse_step st of
              Inl e \<Rightarrow> Inl e
            | Inr (continue, st') \<Rightarrow> if continue then parse_loop st' else Inr st'))"
  by pat_completeness auto
termination
  by (relation "measure (\<lambda>st. length (p_tail st))") (auto dest: tail_parse_step)

declare parse_loop.simps [simp del]

subsection \<open>\<open>squashTokens\<close> and \<open>nestTokens\<close>\<close>

fun squash_loop :: "ftoken list \<Rightarrow> ftoken option list \<Rightarrow> ftoken list" where
  \<comment> \<open>The first argument is \<open>squashedTokens\<close> with the last token first, so its head is
     \<open>lastToken\<close>. Two text tokens in a row are merged.\<close>
  "squash_loop acc [] = rev acc"
| "squash_loop acc (None # ts) = squash_loop acc ts"
| "squash_loop (FToken TText v1 s1 e1 p1 # before) (Some (FToken TText v2 s2 e2 p2) # ts) =
     squash_loop (FToken TText (v1 @ v2) s1 e2 p1 # before) ts"
| "squash_loop acc (Some t # ts) = squash_loop (t # acc) ts"

definition squashTokens :: "ftoken option list \<Rightarrow> ftoken list" where
  "squashTokens ts = squash_loop [] ts"

fun unwind :: "token list \<Rightarrow> (ftoken \<times> token list) list \<Rightarrow> token list" where
  "unwind coll [] = rev coll"
| "unwind coll ((s, outer) # stack) =
     unwind (Token s (Some (rev coll)) None # outer) stack"

fun nest_loop :: "token list \<Rightarrow> (ftoken \<times> token list) list \<Rightarrow> ftoken list \<Rightarrow> token list res" where
  \<comment> \<open>\<open>coll\<close> is the current \<open>collector\<close>, last token first. The stack holds the open
     sections, each with the collector it was pushed onto. A closing tag with no open section
     makes the source read a property of \<open>undefined\<close>.\<close>
  "nest_loop coll stack [] = Inr (unwind coll stack)"
| "nest_loop coll stack (t # ts) =
     (if f_type t = THash \<or> f_type t = TCaret then nest_loop [] ((t, coll) # stack) ts
      else if f_type t = TSlash then
        (case stack of
           [] \<Rightarrow> Inl TypeError
         | (s, outer) # stack' \<Rightarrow>
             nest_loop (Token s (Some (rev coll)) (Some (f_start t)) # outer) stack' ts)
      else nest_loop (Token t None None # coll) stack ts)"

definition nestTokens :: "ftoken list \<Rightarrow> token list res" where
  "nestTokens ts = nest_loop [] [] ts"

subsection \<open>\<open>parseTemplate\<close>\<close>

definition initial_pstate :: "string \<Rightarrow> pstate" where
  \<comment> \<open>The variables of \<open>parseTemplate\<close> before the loop, with the default tags
     \<open>mustache.tags\<close> compiled.\<close>
  "initial_pstate template =
     PState template 0 [] 0 [] [] False False False [] 0 ''{{'' ''}}''"

definition finish_parse :: "pstate \<Rightarrow> token list res" where
  \<comment> \<open>After the loop: the state is the one \<open>stripSpace()\<close> left.\<close>
  "finish_parse st =
     (case p_sections st of
        openSection # _ \<Rightarrow> Inl (UnclosedSection (f_value openSection) (p_pos st))
      | [] \<Rightarrow> nestTokens (squashTokens (rev (p_tokens st))))"

definition parseTemplate :: "string \<Rightarrow> token list res" where
  \<comment> \<open>Always called without \<open>tags\<close> here: \<open>mustache.render\<close> gets no \<open>config\<close>.\<close>
  "parseTemplate template =
     (if template = [] then Inr []
      else and_then (parse_loop (initial_pstate template)) (\<lambda>st. finish_parse (stripSpace st)))"

section \<open>Values and the render context\<close>

text \<open>
  The values a view can hold. \<open>VNum n\<close> is the number \<open>n\<close>, for integers only. The two
  functions that occur are those of \<open>renderTemplate\<close>: \<open>FirstProp\<close> is the function stored
  under the key \<open>first\<close> of the view, and \<open>FirstLambda\<close> is the function it returns, which
  takes the text of a section and a \<open>render\<close> callback. An object is the list of its own
  properties in the order of \<open>Object.keys\<close>; a key occurs once.
\<close>

datatype jsfun = FirstProp | FirstLambda

datatype jsval =
    VUndefined
  | VNull
  | VBool bool
  | VNum int
  | VStr string
  | VArr "jsval list"
  | VObj "(string \<times> jsval) list"
  | VFun jsfun

fun truthy :: "jsval \<Rightarrow> bool" where
  "truthy VUndefined = False"
| "truthy VNull = False"
| "truthy (VBool b) = b"
| "truthy (VNum n) = (n \<noteq> 0)"
| "truthy (VStr s) = (s \<noteq> [])"
| "truthy (VArr xs) = True"
| "truthy (VObj ps) = True"
| "truthy (VFun f) = True"

fun is_nullish :: "jsval \<Rightarrow> bool" where
  \<comment> \<open>\<open>value == null\<close>\<close>
  "is_nullish VUndefined = True"
| "is_nullish VNull = True"
| "is_nullish v = False"

text \<open>Decimal digits of a number, for \<open>String(n)\<close>.\<close>

function show_nat :: "nat \<Rightarrow> string" where
  "show_nat n =
     (if n < 10 then [''0123456789'' ! n] else show_nat (n div 10) @ [''0123456789'' ! (n mod 10)])"
  by pat_completeness auto
termination
  by (relation "measure (\<lambda>n. n)") auto

text \<open>
  \<open>String(v)\<close>, which is also what \<open>buffer += v\<close> appends. Not modelled: a number that is
  printed with an exponent or is too large to be exact, an object with a \<open>toString\<close> or
  \<open>valueOf\<close> property of its own, and the source text of a function.
\<close>

fun to_string :: "jsval \<Rightarrow> string res"
  and elements_to_string :: "jsval list \<Rightarrow> string list res" where
  "to_string VUndefined = Inr ''undefined''"
| "to_string VNull = Inr ''null''"
| "to_string (VBool b) = Inr (if b then ''true'' else ''false'')"
| "to_string (VNum n) =
     (if 9007199254740992 < \<bar>n\<bar> then Inl Unmodelled
      else Inr ((if n < 0 then ''-'' else []) @ show_nat (nat \<bar>n\<bar>)))"
| "to_string (VStr s) = Inr s"
| "to_string (VArr xs) = and_then (elements_to_string xs) (\<lambda>ss. Inr (join '','' ss))"
| "to_string (VObj ps) =
     (if ''toString'' \<in> set (map fst ps) \<or> ''valueOf'' \<in> set (map fst ps) then Inl Unmodelled
      else Inr ''[object Object]'')"
| "to_string (VFun f) = Inl Unmodelled"
| "elements_to_string [] = Inr []"
| "elements_to_string (x # xs) =
     and_then (if is_nullish x then Inr [] else to_string x) (\<lambda>s.
     and_then (elements_to_string xs) (\<lambda>ss. Inr (s # ss)))"

fun escape_char :: "char \<Rightarrow> string" where
  "escape_char c =
     (if c = CHR ''&'' then ''&amp;'' else if c = CHR ''<'' then ''&lt;''
      else if c = CHR ''>'' then ''&gt;'' else if c = CHR 0x22 then ''&quot;''
      else if c = CHR 0x27 then ''&#39;'' else if c = CHR ''/'' then ''&#x2F;''
      else if c = CHR 0x60 then ''&#x60;'' else if c = CHR ''='' then ''&#x3D;''
      else [c])"

definition escapeHtml :: "jsval \<Rightarrow> string res" where
  "escapeHtml v = and_then (to_string v) (\<lambda>s. Inr (concat (map escape_char s)))"

text \<open>
  A \<open>Context\<close> is a view and the parent context. Its \<open>cache\<close> is not part of the model:
  it starts as \<open>{ '.': view }\<close> and afterwards only remembers what a lookup found, and no
  view changes while a template is rendered. The cache is a plain object, so a name that
  \<open>Object.prototype\<close> also has (\<open>hasOwnProperty\<close>, \<open>__proto__\<close>, ...) would not be
  remembered like the others; looking up such a name is not modelled.
\<close>

datatype Context = Context (c_view : jsval) (c_parent : "Context option")

definition push :: "Context \<Rightarrow> jsval \<Rightarrow> Context" where
  "push ctx view = Context view (Some ctx)"

definition index_of_name :: "string \<Rightarrow> nat \<Rightarrow> bool" where
  \<comment> \<open>Is the name the decimal form of the array index \<open>i\<close>?\<close>
  "index_of_name name i = (name = show_nat i)"

fun own_property :: "jsval \<Rightarrow> string \<Rightarrow> jsval option res" where
  \<comment> \<open>The own property \<open>name\<close> of a value that is not \<open>null\<close> or \<open>undefined\<close>, if it has
     one. The own properties of a function are not modelled.\<close>
  "own_property (VObj ps) name = Inr (map_of ps name)"
| "own_property (VArr xs) name =
     (if name = ''length'' then Inr (Some (VNum (int (length xs))))
      else Inr (map_option (\<lambda>i. xs ! i) (find (index_of_name name) [0 ..< length xs])))"
| "own_property (VStr s) name =
     (if name = ''length'' then Inr (Some (VNum (int (length s))))
      else Inr (map_option (\<lambda>i. VStr [s ! i]) (find (index_of_name name) [0 ..< length s])))"
| "own_property (VFun f) name = Inl Unmodelled"
| "own_property v name = Inr None"

fun is_object :: "jsval \<Rightarrow> bool" where
  \<comment> \<open>\<open>obj != null && typeof obj === 'object'\<close>\<close>
  "is_object (VObj ps) = True"
| "is_object (VArr xs) = True"
| "is_object v = False"

definition inherited :: "jsval \<Rightarrow> string \<Rightarrow> bool res" where
  \<comment> \<open>Does the value inherit the name from a prototype? A plain object inherits the names
     of \<open>Object.prototype\<close>, whose values are not modelled. What an array, a string, a
     number, a boolean or a function inherits depends on the engine and is not modelled.\<close>
  "inherited v name =
     (case v of
        VObj ps \<Rightarrow> if name \<in> set object_prototype_names then Inl Unmodelled else Inr False
      | _ \<Rightarrow> Inl Unmodelled)"

definition hasProperty :: "jsval \<Rightarrow> string \<Rightarrow> bool res" where
  \<comment> \<open>\<open>obj != null && typeof obj === 'object' && (propName in obj)\<close>\<close>
  "hasProperty obj propName =
     (if \<not> is_object obj then Inr False
      else and_then (own_property obj propName) (\<lambda>r.
             case r of Some v \<Rightarrow> Inr True | None \<Rightarrow> inherited obj propName))"

definition primitiveHasOwnProperty :: "jsval \<Rightarrow> string \<Rightarrow> bool res" where
  "primitiveHasOwnProperty primitive propName =
     (if is_nullish primitive \<or> is_object primitive then Inr False
      else and_then (own_property primitive propName) (\<lambda>r. Inr (r \<noteq> None)))"

definition get_member :: "jsval \<Rightarrow> string \<Rightarrow> jsval res" where
  \<comment> \<open>\<open>v[name]\<close>\<close>
  "get_member v name =
     (if is_nullish v then Inl TypeError
      else and_then (own_property v name) (\<lambda>r.
             case r of
               Some x \<Rightarrow> Inr x
             | None \<Rightarrow> and_then (inherited v name) (\<lambda>h. Inr VUndefined)))"

fun walk_path :: "jsval \<Rightarrow> string list \<Rightarrow> bool \<Rightarrow> (bool \<times> jsval) res" where
  \<comment> \<open>The inner \<open>while\<close> loop of \<open>lookup\<close> for a dotted name: the result is \<open>lookupHit\<close>
     and \<open>intermediateValue\<close>.\<close>
  "walk_path v [] hit = Inr (hit, v)"
| "walk_path v (n # ns) hit =
     (if is_nullish v then Inr (hit, v)
      else and_then
             (if ns = [] then
                and_then (hasProperty v n) (\<lambda>h.
                  if h then Inr True else primitiveHasOwnProperty v n)
              else Inr hit) (\<lambda>hit'.
           and_then (get_member v n) (\<lambda>v'. walk_path v' ns hit')))"

definition is_dotted :: "string \<Rightarrow> bool" where
  \<comment> \<open>\<open>name.indexOf('.') > 0\<close>\<close>
  "is_dotted name = (name \<noteq> [] \<and> hd name \<noteq> CHR ''.'' \<and> CHR ''.'' \<in> set name)"

definition view_hit :: "jsval \<Rightarrow> string \<Rightarrow> (bool \<times> jsval) res" where
  \<comment> \<open>One round of the outer \<open>while (context)\<close> loop: \<open>lookupHit\<close> and
     \<open>intermediateValue\<close> for this context's view. For a plain name the source reads
     \<open>context.view[name]\<close> first, which throws when the view is \<open>null\<close> or \<open>undefined\<close>,
     and uses what it read only when \<open>hasProperty\<close> holds.\<close>
  "view_hit view name =
     (if is_dotted name then walk_path view (split_str ''.'' name) False
      else if is_nullish view then Inl TypeError
      else and_then (hasProperty view name) (\<lambda>h.
             if h then and_then (get_member view name) (\<lambda>v. Inr (True, v))
             else Inr (False, VUndefined)))"

fun find_in_contexts :: "Context \<Rightarrow> string \<Rightarrow> jsval res" where
  "find_in_contexts (Context view parent) name =
     and_then (view_hit view name) (\<lambda>(hit, v).
       if hit then Inr v
       else (case parent of None \<Rightarrow> Inr VUndefined | Some p \<Rightarrow> find_in_contexts p name))"

fun call_with_view :: "jsfun \<Rightarrow> jsval res" where
  \<comment> \<open>\<open>value.call(this.view)\<close>: \<open>first()\<close> returns its inner function; the inner function
     called without a \<open>render\<close> argument tries to call \<open>undefined\<close>.\<close>
  "call_with_view FirstProp = Inr (VFun FirstLambda)"
| "call_with_view FirstLambda = Inl TypeError"

definition lookup :: "Context \<Rightarrow> string \<Rightarrow> jsval res" where
  "lookup ctx name =
     (if name \<in> set object_prototype_names then Inl Unmodelled
      else and_then (if name = ''.'' then Inr (c_view ctx) else find_in_contexts ctx name) (\<lambda>v.
             case v of VFun f \<Rightarrow> call_with_view f | _ \<Rightarrow> Inr v))"

section \<open>The renderer\<close>

text \<open>
  \<open>mustache.render\<close> is always called with a template and a view only, so \<open>partials\<close> and
  \<open>config\<close> are \<open>undefined\<close> throughout: \<open>renderPartial\<close> returns \<open>undefined\<close>, the tags
  are the default ones and the escape function is \<open>escapeHtml\<close>. The cache of parsed
  templates is not modelled either: parsing is a function of the template.

  \<open>first_of\<close> is the body of the function \<open>first\<close> returns, applied to what \<open>render\<close>
  gave for the text of the section.
\<close>

function split_bars_from :: "string \<Rightarrow> string \<Rightarrow> string list" where
  \<comment> \<open>\<open>s.split(/\s*\|\|\s*/)\<close>: a separator starts where white space followed by \<open>||\<close>
     starts, and takes the white space after it.\<close>
  "split_bars_from cur [] = [rev cur]"
| "split_bars_from cur (c # cs) =
     (if starts_with ''||'' (dropWhile is_space (c # cs))
      then rev cur # split_bars_from [] (dropWhile is_space (drop 2 (dropWhile is_space (c # cs))))
      else split_bars_from (c # cur) cs)"
  by pat_completeness auto
termination
proof (relation "measure (\<lambda>(cur, s). length s)", goal_cases)
  case 1
  then show ?case by simp
next
  case (2 cur c cs)
  have "length (dropWhile is_space (drop 2 (dropWhile is_space (c # cs))))
          \<le> length (drop 2 (dropWhile is_space (c # cs)))"
    by (rule length_dropWhile_le)
  moreover have "starts_with ''||'' (dropWhile is_space (c # cs))"
    using 2 by simp
  then have "dropWhile is_space (c # cs) \<noteq> []"
    by (cases "dropWhile is_space (c # cs)") simp_all
  then have "length (drop 2 (dropWhile is_space (c # cs))) < length (dropWhile is_space (c # cs))"
    by (cases "dropWhile is_space (c # cs)") auto
  moreover have "length (dropWhile is_space (c # cs)) \<le> length (c # cs)"
    by (rule length_dropWhile_le)
  ultimately show ?case by simp
next
  case 3
  then show ?case by simp
qed

definition first_of :: "string \<Rightarrow> string" where
  "first_of rendered =
     (case filter (\<lambda>b. b \<noteq> []) (split_bars_from [] rendered) of
        [] \<Rightarrow> []
      | p # _ \<Rightarrow> p)"

definition js_slice :: "string \<Rightarrow> int \<Rightarrow> int option \<Rightarrow> string" where
  \<comment> \<open>\<open>s.slice(a, b)\<close>; a negative index counts from the end, an absent \<open>b\<close> is the end.\<close>
  "js_slice s a b =
     (let len = int (length s);
          from = (if a < 0 then max (len + a) 0 else min a len);
          to = (case b of None \<Rightarrow> len
                | Some b' \<Rightarrow> if b' < 0 then max (len + b') 0 else min b' len)
      in take (nat (to - from)) (drop (nat from) s))"

text \<open>
  \<open>renderTokens\<close>, \<open>renderSection\<close>, \<open>renderInverted\<close>, \<open>unescapedValue\<close>, \<open>escapedValue\<close>
  and \<open>rawValue\<close>. \<open>sub\<close> is the closure \<open>subRender\<close>: it renders a template in a context.
  A token renderer returns a value, \<open>undefined\<close> for "nothing"; \<open>renderTokens\<close> appends
  what is not \<open>undefined\<close>. \<open>renderTokens\<close> reads \<open>tokens.length\<close> first, which throws when
  the token has no array of children.
\<close>

definition append_value :: "string \<Rightarrow> jsval \<Rightarrow> string res" where
  \<comment> \<open>\<open>if (value !== undefined) buffer += value\<close>\<close>
  "append_value buffer v =
     (if v = VUndefined then Inr buffer else and_then (to_string v) (\<lambda>s. Inr (buffer @ s)))"

function renderTokens ::
    "(string \<Rightarrow> Context \<Rightarrow> string res) \<Rightarrow> string \<Rightarrow> Context \<Rightarrow> token list option \<Rightarrow> string res"
  and render_loop ::
    "(string \<Rightarrow> Context \<Rightarrow> string res) \<Rightarrow> string \<Rightarrow> Context \<Rightarrow> string \<Rightarrow> token list \<Rightarrow> string res"
  and render_token ::
    "(string \<Rightarrow> Context \<Rightarrow> string res) \<Rightarrow> string \<Rightarrow> Context \<Rightarrow> token \<Rightarrow> jsval res"
  and renderSection ::
    "(string \<Rightarrow> Context \<Rightarrow> string res) \<Rightarrow> string \<Rightarrow> Context \<Rightarrow> token \<Rightarrow> jsval \<Rightarrow> jsval res"
  and render_elements ::
    "(string \<Rightarrow> Context \<Rightarrow> string res) \<Rightarrow> string \<Rightarrow> Context \<Rightarrow> token list option \<Rightarrow> string
       \<Rightarrow> jsval list \<Rightarrow> string res"
where
  "renderTokens sub orig ctx None = Inl TypeError"
| "renderTokens sub orig ctx (Some tokens) = render_loop sub orig ctx [] tokens"
| "render_loop sub orig ctx buffer [] = Inr buffer"
| "render_loop sub orig ctx buffer (t # ts) =
     and_then (render_token sub orig ctx t) (\<lambda>v.
     and_then (append_value buffer v) (\<lambda>buffer'. render_loop sub orig ctx buffer' ts))"
| "render_token sub orig ctx (Token ft children close) =
     (case f_type ft of
        THash \<Rightarrow> and_then (lookup ctx (f_value ft)) (renderSection sub orig ctx (Token ft children close))
      | TCaret \<Rightarrow>
          and_then (lookup ctx (f_value ft)) (\<lambda>v.
            if \<not> truthy v \<or> v = VArr []
            then and_then (renderTokens sub orig ctx children) (\<lambda>s. Inr (VStr s))
            else Inr VUndefined)
      | TGt \<Rightarrow> Inr VUndefined
      | TAmp \<Rightarrow>
          and_then (lookup ctx (f_value ft)) (\<lambda>v. Inr (if is_nullish v then VUndefined else v))
      | TName \<Rightarrow>
          and_then (lookup ctx (f_value ft)) (\<lambda>v.
            if is_nullish v then Inr VUndefined
            else (case v of
                    VNum n \<Rightarrow> and_then (to_string v) (\<lambda>s. Inr (VStr s))
                  | _ \<Rightarrow> and_then (escapeHtml v) (\<lambda>s. Inr (VStr s))))
      | TText \<Rightarrow> Inr (VStr (f_value ft))
      | _ \<Rightarrow> Inr VUndefined)"
| "renderSection sub orig ctx (Token ft children close) v =
     (if \<not> truthy v then Inr VUndefined
      else (case v of
              VArr xs \<Rightarrow>
                and_then (render_elements sub orig ctx children [] xs) (\<lambda>s. Inr (VStr s))
            | VFun f \<Rightarrow>
                (case f of
                   FirstLambda \<Rightarrow>
                     and_then (sub (js_slice orig (f_end ft) close) ctx) (\<lambda>r.
                       Inr (VStr (first_of r)))
                 | FirstProp \<Rightarrow> Inl Unmodelled)
            | VBool b \<Rightarrow>
                and_then (renderTokens sub orig ctx children) (\<lambda>s. Inr (VStr s))
            | _ \<Rightarrow>
                and_then (renderTokens sub orig (push ctx v) children) (\<lambda>s. Inr (VStr s))))"
| "render_elements sub orig ctx children buffer [] = Inr buffer"
| "render_elements sub orig ctx children buffer (x # xs) =
     and_then (renderTokens sub orig (push ctx x) children) (\<lambda>s.
       render_elements sub orig ctx children (buffer @ s) xs)"
  by pat_completeness auto
termination
  by (relation "inv_image (less_than <*lex*> less_than)
        (\<lambda>x. case x of
           Inl (Inl (sub, orig, ctx, tokens)) \<Rightarrow> (size_option (size_list size) tokens, 1)
         | Inl (Inr (sub, orig, ctx, buffer, ts)) \<Rightarrow> (1 + size_list size ts, 0)
         | Inr (Inl (sub, orig, ctx, t)) \<Rightarrow> (size t, 2)
         | Inr (Inr (Inl (sub, orig, ctx, t, v))) \<Rightarrow> (size t, 1)
         | Inr (Inr (Inr (sub, orig, ctx, children, buffer, xs))) \<Rightarrow>
             (size_option (size_list size) children, 2 + length xs))")
     auto

subsection \<open>\<open>Writer.prototype.render\<close>\<close>

text \<open>
  \<open>render\<close> parses the template and renders its tokens; the \<open>subRender\<close> it hands down
  is \<open>render\<close> itself. A higher-order section calls it on the text between its tags, which
  is shorter than the template: that is why \<open>render\<close> terminates. The proof needs that every
  token \<open>parseTemplate\<close> returns ends after position 0.
\<close>

fun token_slices :: "string \<Rightarrow> token \<Rightarrow> string list" where
  "token_slices orig (Token ft children close) =
     js_slice orig (f_end ft) close #
     (case children of None \<Rightarrow> [] | Some ts \<Rightarrow> concat (map (token_slices orig) ts))"

definition tokens_slices :: "string \<Rightarrow> token list option \<Rightarrow> string set" where
  "tokens_slices orig children =
     (case children of None \<Rightarrow> {} | Some ts \<Rightarrow> (\<Union>t \<in> set ts. set (token_slices orig t)))"

lemma and_then_cong [fundef_cong]:
  "r = r' \<Longrightarrow> (\<And>x. r' = Inr x \<Longrightarrow> f x = f' x) \<Longrightarrow> and_then r f = and_then r' f'"
  by (auto simp: and_then_def split: sum.splits)

lemma render_sub_cong:
  fixes sub sub' :: "string \<Rightarrow> Context \<Rightarrow> string res"
  shows
  "(\<And>text c. text \<in> tokens_slices orig children \<Longrightarrow> sub text c = sub' text c)
     \<Longrightarrow> renderTokens sub orig ctx children = renderTokens sub' orig ctx children"
  and
  "(\<And>text c. text \<in> tokens_slices orig (Some ts) \<Longrightarrow> sub text c = sub' text c)
     \<Longrightarrow> render_loop sub orig ctx buffer ts = render_loop sub' orig ctx buffer ts"
  and
  "(\<And>text c. text \<in> set (token_slices orig t) \<Longrightarrow> sub text c = sub' text c)
     \<Longrightarrow> render_token sub orig ctx t = render_token sub' orig ctx t"
  and
  "(\<And>text c. text \<in> set (token_slices orig t) \<Longrightarrow> sub text c = sub' text c)
     \<Longrightarrow> renderSection sub orig ctx t v = renderSection sub' orig ctx t v"
  and
  "(\<And>text c. text \<in> tokens_slices orig children \<Longrightarrow> sub text c = sub' text c)
     \<Longrightarrow> render_elements sub orig ctx children buffer xs
         = render_elements sub' orig ctx children buffer xs"
proof (induction sub orig ctx children and sub orig ctx buffer ts and sub orig ctx t
         and sub orig ctx t v and sub orig ctx children buffer xs
       rule: renderTokens_render_loop_render_token_renderSection_render_elements.induct)
  case (1 sub orig ctx)
  then show ?case by simp
next
  case (2 sub orig ctx tokens)
  then show ?case by simp
next
  case (3 sub orig ctx buffer)
  then show ?case by simp
next
  case (4 sub orig ctx buffer t ts)
  have a: "render_token sub orig ctx t = render_token sub' orig ctx t"
    using 4 by (simp add: tokens_slices_def)
  have b: "\<And>b. render_loop sub orig ctx b ts = render_loop sub' orig ctx b ts"
    using 4 by (simp add: tokens_slices_def)
  show ?case by (simp add: a b)
next
  case (5 sub orig ctx ft children close)
  show ?case
  proof (cases "f_type ft")
    case THash
    then have "\<And>x. renderSection sub orig ctx (Token ft children close) x
                 = renderSection sub' orig ctx (Token ft children close) x"
      using 5 by blast
    then have eq: "renderSection sub orig ctx (Token ft children close)
                 = renderSection sub' orig ctx (Token ft children close)"
      by (intro ext)
    show ?thesis
      using THash by (simp add: eq del: renderSection.simps)
  next
    case TCaret
    have "\<And>text c. text \<in> tokens_slices orig children \<Longrightarrow> sub text c = sub' text c"
      using 5(3) by (auto simp: tokens_slices_def split: option.splits)
    then have eq: "renderTokens sub orig ctx children = renderTokens sub' orig ctx children"
      using 5(2)[of VUndefined] TCaret by simp
    show ?thesis
      using TCaret by (simp add: eq cong: if_cong)
  qed simp_all
next
  case (6 sub orig ctx ft children close v)
  have sl: "\<And>text c. text \<in> tokens_slices orig children \<Longrightarrow> sub text c = sub' text c"
    using 6(8) by (auto simp: tokens_slices_def split: option.splits)
  have here: "\<And>c. sub (js_slice orig (f_end ft) close) c = sub' (js_slice orig (f_end ft) close) c"
    using 6(8) by simp
  show ?case
  proof (cases "truthy v")
    case False
    then show ?thesis by simp
  next
    case True
    then show ?thesis
      using 6(1-7) sl here by (cases v) (simp_all split: jsfun.splits)
  qed
next
  case (7 sub orig ctx children buffer)
  then show ?case by simp
next
  case (8 sub orig ctx children buffer x xs)
  have a: "renderTokens sub orig (push ctx x) children = renderTokens sub' orig (push ctx x) children"
    using 8 by simp
  have b: "\<And>s. render_elements sub orig ctx children (buffer @ s) xs
              = render_elements sub' orig ctx children (buffer @ s) xs"
    using 8 by simp
  show ?case by (simp add: a b)
qed

lemma renderTokens_cong [fundef_cong]:
  assumes "orig = orig'" "ctx = ctx'" "children = children'"
    and "\<And>text c. text \<in> tokens_slices orig' children' \<Longrightarrow> sub text c = sub' text c"
  shows "renderTokens sub orig ctx children = renderTokens sub' orig' ctx' children'"
  using assms render_sub_cong(1)[of orig' children' sub sub' ctx'] by simp


definition pinv :: "pstate \<Rightarrow> bool" where
  "pinv st = (0 \<le> p_pos st \<and> (\<forall>t. Some t \<in> set (p_tokens st) \<longrightarrow> 0 < f_end t))"

lemma pos_consume: "p_pos (consume m st) = p_pos st + int (length m)"
  by (cases st) simp

lemma tokens_consume: "p_tokens (consume m st) = p_tokens st"
  by (cases st) simp

lemma pinv_consume: "pinv st \<Longrightarrow> pinv (consume m st)"
  by (simp add: pinv_def pos_consume tokens_consume)

lemma set_fold_update_None:
  "Some t \<in> set (fold (\<lambda>i ts. ts[f i := None]) is xs) \<Longrightarrow> Some t \<in> set xs"
proof (induction "is" arbitrary: xs)
  case Nil
  then show ?case by simp
next
  case (Cons i "is")
  then have "Some t \<in> set (xs[f i := None])" by simp
  then show ?case
    using set_update_subset_insert[of xs "f i" None] by auto
qed

lemma pinv_stripSpace: "pinv st \<Longrightarrow> pinv (stripSpace st)"
  by (cases st) (auto simp: pinv_def dest: set_fold_update_None)

lemma pos_stripSpace: "p_pos (stripSpace st) = p_pos st"
  by (cases st) simp

lemma pinv_new_line: "pinv st \<Longrightarrow> pinv (new_line b st)"
proof (cases b)
  case True
  assume "pinv st"
  then have "pinv (stripSpace st)" by (rule pinv_stripSpace)
  then show ?thesis using True by (cases "stripSpace st") (simp add: pinv_def)
next
  case False
  assume "pinv st"
  then show ?thesis using False by simp
qed

lemma pinv_note_char: "pinv st \<Longrightarrow> pinv (note_char b c st)"
  by (cases st; cases b) (simp_all add: pinv_def)

lemma pinv_push_token: "pinv st \<Longrightarrow> 0 < f_end t \<Longrightarrow> pinv (push_token t st)"
  by (cases st) (auto simp: pinv_def)

lemma pinv_text_chars: "pinv st \<Longrightarrow> 0 \<le> start \<Longrightarrow> pinv (text_chars v start st)"
proof (induction v arbitrary: start st)
  case Nil
  then show ?case by simp
next
  case (Cons c v)
  have "pinv (new_line (c = CHR 0x0A)
          (push_token (FToken TText [c] start (start + 1) None) (note_char (is_space c) c st)))"
    using Cons.prems by (intro pinv_new_line pinv_push_token pinv_note_char) simp_all
  then show ?case
    using Cons.IH Cons.prems by simp
qed

lemma pos_text_chars: "p_pos (text_chars v start st) = p_pos st"
proof (induction v arbitrary: start st)
  case Nil
  then show ?case by simp
next
  case (Cons c v)
  have "\<And>b s. p_pos (new_line b s) = p_pos s"
    subgoal for b s
      by (cases b; cases s; cases "stripSpace s") (auto split: if_splits)
    done
  moreover have "\<And>t s. p_pos (push_token t s) = p_pos s"
    subgoal for t s by (cases s) simp
    done
  moreover have "\<And>b s. p_pos (note_char b c s) = p_pos s"
    subgoal for b s by (cases s; cases b) simp_all
    done
  ultimately show ?case using Cons.IH by simp
qed

definition pge :: "pstate \<Rightarrow> pstate \<Rightarrow> bool" where
  \<comment> \<open>The scanner moved on, the tokens are the same.\<close>
  "pge st st' = (p_pos st \<le> p_pos st' \<and> p_tokens st' = p_tokens st)"

lemma pge_refl: "pge st st"
  by (simp add: pge_def)

lemma pge_trans: "pge a b \<Longrightarrow> pge b c \<Longrightarrow> pge a c"
  by (simp add: pge_def)

lemma pge_consume: "pge st (consume m st)"
  by (simp add: pge_def pos_consume tokens_consume)

lemma pge_skip_rest: "pge st (skip_rest a b st)"
proof -
  have x: "\<And>l s. pge s (skip_to_close (skip_lit l s))"
    unfolding skip_to_close_def skip_lit_def
    by (rule pge_trans[OF pge_consume pge_consume])
  show ?thesis by (cases a; cases b) (simp_all add: x pge_refl)
qed

lemma pge_after_value: "pge st (after_value ty v st)"
  unfolding after_value_def by (rule pge_trans[OF pge_consume pge_skip_rest])

lemma pinv_set_tags: "set_tags ts st = Inr st' \<Longrightarrow> pinv st \<Longrightarrow> pinv st'"
  by (induction ts st rule: set_tags.induct) (auto simp: pinv_def)

lemma pinv_pop_section: "pop_section v start st = Inr st' \<Longrightarrow> pinv st \<Longrightarrow> pinv st'"
  by (induction v start st rule: pop_section.induct) (auto simp: pinv_def split: if_splits)

lemma pinv_after_tag: "after_tag ty v start tok st = Inr st' \<Longrightarrow> pinv st \<Longrightarrow> pinv st'"
  by (cases st; cases ty)
     (auto simp: compileTags_def pinv_def dest: pinv_set_tags[unfolded pinv_def]
                 pinv_pop_section[unfolded pinv_def])

lemma pinv_finish_tag:
  assumes "finish_tag ty v start st = Inr st'" "pinv st" "0 < p_pos st"
  shows "pinv st'"
proof -
  have "0 < f_end (make_token ty v start st)"
    using assms(3) by (simp add: make_token_def)
  then have "pinv (add_tag (make_token ty v start st) st)"
    using assms(2) by (cases st) (auto simp: pinv_def)
  then show ?thesis
    using assms(1) unfolding finish_tag_def by (rule pinv_after_tag[rotated])
qed

lemma pinv_pge: "pge st st' \<Longrightarrow> pinv st \<Longrightarrow> pinv st'"
  by (auto simp: pge_def pinv_def)

lemma pinv_parse_tag:
  assumes "parse_tag start st = Inr st'" "pinv st" "0 < p_pos st"
  shows "pinv st'"
proof -
  define ty where "ty = scan_tag (p_tail st)"
  define s2 where "s2 = skip_white (consume ty st)"
  define s3 where "s3 = after_value ty (tag_value ty s2) s2"
  have "pge st (consume ty st)" by (rule pge_consume)
  moreover have "pge (consume ty st) s2"
    unfolding s2_def skip_white_def by (rule pge_consume)
  moreover have "pge s2 s3"
    unfolding s3_def by (rule pge_after_value)
  ultimately have g: "pge st s3"
    by (blast intro: pge_trans)
  have ct: "close_tag (scan_ws_lit (p_closeTag s3) (p_tail s3)) ty (tag_value ty s2) start s3 = Inr st'"
    using assms(1)
    by (simp add: parse_tag_def read_value_def read_close_def ty_def s2_def s3_def)
  then obtain m where ft: "finish_tag ty (tag_value ty s2) start (consume m s3) = Inr st'"
    by (cases "scan_ws_lit (p_closeTag s3) (p_tail s3)") auto
  have pg: "pge st (consume m s3)"
    by (rule pge_trans[OF g pge_consume])
  have "pinv (consume m s3)"
    using pg assms(2) by (rule pinv_pge)
  moreover have "0 < p_pos (consume m s3)"
    using pg assms(3) by (simp add: pge_def)
  ultimately show ?thesis using ft by (intro pinv_finish_tag[OF ft])
qed

lemma pinv_set_hasTag: "pinv st \<Longrightarrow> pinv (set_hasTag st)"
  by (cases st) (simp add: pinv_def)

lemma pos_set_hasTag: "p_pos (set_hasTag st) = p_pos st"
  by (cases st) simp

lemma pinv_open_tag:
  assumes "open_tag m start st = Inr (b, st')" "pinv st"
  shows "pinv st'"
proof (cases m)
  case Nil
  with assms show ?thesis by simp
next
  case (Cons c m')
  then have pt: "parse_tag start (set_hasTag (consume m st)) = Inr st'"
    using assms(1) by (cases "parse_tag start (set_hasTag (consume m st))") auto
  have "pinv (set_hasTag (consume m st))"
    using assms(2) by (intro pinv_set_hasTag pinv_consume)
  moreover have "0 < p_pos (set_hasTag (consume m st))"
    using assms(2) Cons by (simp add: pos_set_hasTag pos_consume pinv_def)
  ultimately show ?thesis by (rule pinv_parse_tag[OF pt])
qed

lemma pinv_parse_step:
  assumes "parse_step st = Inr (b, st')" "pinv st"
  shows "pinv st'"
proof -
  define v where "v = until_open (p_openTag st) (p_tail st)"
  define s1 where "s1 = text_chars v (p_pos st) (consume v st)"
  have "open_tag (scan_open (p_openTag s1) (p_tail s1)) (p_pos st + int (length v)) s1
          = Inr (b, st')"
    using assms(1) by (simp add: parse_step_def parse_text_def read_open_def v_def s1_def)
  moreover have "pinv s1"
    unfolding s1_def using assms(2) by (intro pinv_text_chars pinv_consume) (simp_all add: pinv_def)
  ultimately show ?thesis by (rule pinv_open_tag)
qed

lemma parse_loop_continue:
  "p_tail st \<noteq> [] \<Longrightarrow> parse_step st = Inr (b, s1) \<Longrightarrow>
     parse_loop st = (if b then parse_loop s1 else Inr s1)"
  by (subst parse_loop.simps) simp

lemma parse_loop_error:
  "p_tail st \<noteq> [] \<Longrightarrow> parse_step st = Inl e \<Longrightarrow> parse_loop st = Inl e"
  by (subst parse_loop.simps) simp

lemma parse_loop_eos: "p_tail st = [] \<Longrightarrow> parse_loop st = Inr st"
  by (subst parse_loop.simps) simp

lemma pinv_parse_loop: "parse_loop st = Inr st' \<Longrightarrow> pinv st \<Longrightarrow> pinv st'"
proof (induction st rule: parse_loop.induct)
  case (1 st)
  show ?case
  proof (cases "p_tail st = []")
    case True
    with 1 show ?thesis by (simp add: parse_loop_eos)
  next
    case False
    show ?thesis
    proof (cases "parse_step st")
      case (Inl e)
      with False "1.prems"(1) show ?thesis by (simp add: parse_loop_error)
    next
      case (Inr r)
      obtain b s1 where r: "r = (b, s1)" by (cases r)
      have ps: "parse_step st = Inr (b, s1)" using Inr r by simp
      have i1: "pinv s1"
        using ps "1.prems"(2) by (rule pinv_parse_step)
      have pl: "(if b then parse_loop s1 else Inr s1) = Inr st'"
        using "1.prems"(1) parse_loop_continue[OF False ps] by simp
      show ?thesis
      proof (cases b)
        case True
        then have "parse_loop s1 = Inr st'" using pl by simp
        then show ?thesis
          using "1.IH"[OF False ps refl True _ i1] by simp
      next
        case f: False
        then have "st' = s1" using pl by simp
        with i1 show ?thesis by simp
      qed
    qed
  qed
qed



lemma js_slice_shorter:
  assumes "0 < e" "orig \<noteq> []"
  shows "length (js_slice orig e close) < length orig"
proof -
  have "0 < min e (int (length orig))" using assms by simp
  then have "0 < nat (min e (int (length orig)))" by simp
  moreover have "0 < length orig" using assms by simp
  ultimately have "length orig - nat (min e (int (length orig))) < length orig"
    by linarith
  then show ?thesis
    using assms by (simp add: js_slice_def Let_def min_less_iff_disj)
qed

lemma squash_loop_ends:
  "\<forall>t\<in>set acc. 0 < f_end t \<Longrightarrow> \<forall>t. Some t \<in> set ts \<longrightarrow> 0 < f_end t
     \<Longrightarrow> \<forall>t\<in>set (squash_loop acc ts). 0 < f_end t"
  by (induction acc ts rule: squash_loop.induct) auto

definition tok_good :: "string \<Rightarrow> token \<Rightarrow> bool" where
  "tok_good orig t = (\<forall>s\<in>set (token_slices orig t). length s < length orig)"

lemma tok_good_leaf:
  "orig \<noteq> [] \<Longrightarrow> 0 < f_end ft \<Longrightarrow> tok_good orig (Token ft None cl)"
  by (simp add: tok_good_def js_slice_shorter)

lemma tok_good_sect:
  "orig \<noteq> [] \<Longrightarrow> 0 < f_end ft \<Longrightarrow> \<forall>t\<in>set ts. tok_good orig t
     \<Longrightarrow> tok_good orig (Token ft (Some ts) cl)"
  by (auto simp: tok_good_def js_slice_shorter)

definition all_good :: "string \<Rightarrow> token list \<Rightarrow> bool" where
  "all_good orig ts = (\<forall>t\<in>set ts. tok_good orig t)"

definition stack_good :: "string \<Rightarrow> (ftoken \<times> token list) list \<Rightarrow> bool" where
  "stack_good orig stack = (\<forall>p\<in>set stack. 0 < f_end (fst p) \<and> all_good orig (snd p))"

lemma all_good_Nil: "all_good orig []"
  by (simp add: all_good_def)

lemma all_good_Cons: "all_good orig (t # ts) = (tok_good orig t \<and> all_good orig ts)"
  by (simp add: all_good_def)

lemma all_good_rev: "all_good orig (rev ts) = all_good orig ts"
  by (simp add: all_good_def)

lemma stack_good_Nil: "stack_good orig []"
  by (simp add: stack_good_def)

lemma stack_good_Cons:
  "stack_good orig ((s, outer) # stack)
     = (0 < f_end s \<and> all_good orig outer \<and> stack_good orig stack)"
  by (simp add: stack_good_def)

lemma tok_good_sect':
  "orig \<noteq> [] \<Longrightarrow> 0 < f_end ft \<Longrightarrow> all_good orig ts \<Longrightarrow> tok_good orig (Token ft (Some ts) cl)"
  unfolding all_good_def by (rule tok_good_sect)

lemma unwind_good:
  "orig \<noteq> [] \<Longrightarrow> all_good orig coll \<Longrightarrow> stack_good orig stack
     \<Longrightarrow> all_good orig (unwind coll stack)"
proof (induction coll stack rule: unwind.induct)
  case (1 coll)
  then show ?case by (simp add: all_good_rev)
next
  case (2 coll s outer stack)
  have g: "0 < f_end s" "all_good orig outer" "stack_good orig stack"
    using "2.prems"(3) by (simp_all add: stack_good_Cons)
  have "tok_good orig (Token s (Some (rev coll)) None)"
    using "2.prems"(1) g(1) "2.prems"(2) by (intro tok_good_sect') (simp_all add: all_good_rev)
  then have "all_good orig (Token s (Some (rev coll)) None # outer)"
    using g(2) by (simp add: all_good_Cons)
  then have "all_good orig (unwind (Token s (Some (rev coll)) None # outer) stack)"
    using "2.IH" "2.prems"(1) g(3) by blast
  then show ?case by simp
qed

lemma nest_loop_good:
  "nest_loop coll stack ts = Inr res \<Longrightarrow> orig \<noteq> [] \<Longrightarrow> all_good orig coll
     \<Longrightarrow> stack_good orig stack \<Longrightarrow> \<forall>t\<in>set ts. 0 < f_end t
     \<Longrightarrow> all_good orig res"
proof (induction coll stack ts rule: nest_loop.induct)
  case (1 coll stack)
  then show ?case using unwind_good[of orig coll stack] by simp
next
  case (2 coll stack t ts)
  have t: "0 < f_end t" and ts: "\<forall>t\<in>set ts. 0 < f_end t"
    using "2.prems"(5) by simp_all
  show ?case
  proof (cases "f_type t = THash \<or> f_type t = TCaret")
    case True
    then have nl: "nest_loop [] ((t, coll) # stack) ts = Inr res"
      using "2.prems"(1) by simp
    have "stack_good orig ((t, coll) # stack)"
      using t "2.prems"(3,4) by (simp add: stack_good_Cons)
    then show ?thesis
      using "2.IH"(1)[OF True nl "2.prems"(2) all_good_Nil _ ts] by blast
  next
    case False
    show ?thesis
    proof (cases "f_type t = TSlash")
      case True
      then obtain s outer stack' where st: "stack = (s, outer) # stack'"
        using "2.prems"(1) False by (cases stack) auto
      have nl: "nest_loop (Token s (Some (rev coll)) (Some (f_start t)) # outer) stack' ts = Inr res"
        using "2.prems"(1) False True st by simp
      have g: "0 < f_end s" "all_good orig outer" "stack_good orig stack'"
        using "2.prems"(4) st by (simp_all add: stack_good_Cons)
      have "tok_good orig (Token s (Some (rev coll)) (Some (f_start t)))"
        using "2.prems"(2) g(1) "2.prems"(3) by (intro tok_good_sect') (simp_all add: all_good_rev)
      then have "all_good orig (Token s (Some (rev coll)) (Some (f_start t)) # outer)"
        using g(2) by (simp add: all_good_Cons)
      then show ?thesis
        using "2.IH"(2)[OF False True st refl nl "2.prems"(2) _ g(3) ts] by blast
    next
      case f2: False
      have nl: "nest_loop (Token t None None # coll) stack ts = Inr res"
        using "2.prems"(1) False f2 by simp
      have "tok_good orig (Token t None None)"
        using "2.prems"(2) t by (rule tok_good_leaf)
      then have "all_good orig (Token t None None # coll)"
        using "2.prems"(3) by (simp add: all_good_Cons)
      then show ?thesis
        using "2.IH"(3)[OF False f2 nl "2.prems"(2) _ "2.prems"(4) ts] by blast
    qed
  qed
qed

lemma pinv_initial: "pinv (initial_pstate template)"
  by (simp add: pinv_def initial_pstate_def)

lemma parseTemplate_good:
  assumes "parseTemplate template = Inr toks"
  shows "all_good template toks"
proof (cases "template = []")
  case True
  with assms show ?thesis by (simp add: parseTemplate_def all_good_Nil)
next
  case False
  then obtain st where pl: "parse_loop (initial_pstate template) = Inr st"
    and fp: "finish_parse (stripSpace st) = Inr toks"
    using assms by (auto simp: parseTemplate_def and_then_def split: sum.splits)
  have "pinv (stripSpace st)"
    using pinv_parse_loop[OF pl pinv_initial] by (rule pinv_stripSpace)
  then have e: "\<forall>t. Some t \<in> set (rev (p_tokens (stripSpace st))) \<longrightarrow> 0 < f_end t"
    by (simp add: pinv_def)
  have sq: "\<forall>t\<in>set (squashTokens (rev (p_tokens (stripSpace st)))). 0 < f_end t"
    unfolding squashTokens_def using e by (intro squash_loop_ends) simp_all
  have "nest_loop [] [] (squashTokens (rev (p_tokens (stripSpace st)))) = Inr toks"
    using fp by (auto simp: finish_parse_def nestTokens_def split: list.splits)
  then show ?thesis
    using False all_good_Nil stack_good_Nil sq by (rule nest_loop_good)
qed

function render :: "string \<Rightarrow> Context \<Rightarrow> string res" where
  "render template ctx =
     and_then (parseTemplate template) (\<lambda>tokens.
       renderTokens (\<lambda>text c. render text c) template ctx (Some tokens))"
  by pat_completeness auto
termination
proof (relation "measure (\<lambda>(template, ctx). length template)", goal_cases)
  case 1
  then show ?case by simp
next
  case (2 template ctx tokens body c)
  then show ?case
    using parseTemplate_good[of template tokens]
    by (auto simp: tokens_slices_def tok_good_def all_good_def)
qed


definition mustache_render :: "string \<Rightarrow> jsval \<Rightarrow> string res" where
  \<comment> \<open>\<open>mustache.render(template, view)\<close>: the view is wrapped in a context without parent.\<close>
  "mustache_render template view = render template (Context view None)"

section \<open>The address formatter: data\<close>

subsection \<open>Objects\<close>

text \<open>
  The input of \<open>format\<close> and the working copy \<open>realInput\<close> are plain objects. An object
  is the list of its own properties in the order of \<open>Object.keys\<close>. The keys are distinct
  and none is an array index (for such keys \<open>Object.keys\<close> would not keep the insertion
  order) or \<open>__proto__\<close> (which \<open>Object.assign\<close> would not copy as a property). No key the
  formatter itself adds is of that kind, so a new property goes to the end. The declared
  type of an input value is \<open>string\<close>; the model takes any value, and a property may be
  present with the value \<open>undefined\<close>.
\<close>

type_synonym fields = "(string \<times> jsval) list"

definition get_field :: "fields \<Rightarrow> string \<Rightarrow> jsval" where
  \<comment> \<open>\<open>input[k]\<close> for a name that \<open>Object.prototype\<close> does not have.\<close>
  "get_field input k = (case map_of input k of None \<Rightarrow> VUndefined | Some v \<Rightarrow> v)"

fun set_field :: "fields \<Rightarrow> string \<Rightarrow> jsval \<Rightarrow> fields" where
  \<comment> \<open>\<open>input[k] = v\<close>\<close>
  "set_field [] k v = [(k, v)]"
| "set_field ((k', v') # rest) k v =
     (if k' = k then (k, v) # rest else (k', v') # set_field rest k v)"

definition delete_field :: "fields \<Rightarrow> string \<Rightarrow> fields" where
  \<comment> \<open>\<open>delete input[k]\<close>\<close>
  "delete_field input k = filter (\<lambda>p. fst p \<noteq> k) input"

definition keys_of :: "fields \<Rightarrow> string list" where
  \<comment> \<open>\<open>Object.keys(input)\<close>\<close>
  "keys_of input = map fst input"

definition has_field :: "fields \<Rightarrow> string \<Rightarrow> bool" where
  \<comment> \<open>\<open>!!input[k]\<close>\<close>
  "has_field input k = truthy (get_field input k)"

subsection \<open>More string functions\<close>

text \<open>
  \<open>toUpperCase\<close> on Latin-1 code units: \<open>a-z\<close> and \<open>0xE0-0xFE\<close> (but not the division
  sign \<open>0xF7\<close>) move down by 32 and the sharp s \<open>0xDF\<close> becomes \<open>SS\<close>. The micro sign
  \<open>0xB5\<close> and \<open>0xFF\<close> have upper-case forms above \<open>0xFF\<close>, outside the model.
\<close>

definition upper_char :: "char \<Rightarrow> string res" where
  "upper_char c =
     (let n = (of_char c :: nat)
      in if n = 181 \<or> n = 255 then Inl Unmodelled
         else if n = 223 then Inr ''SS''
         else if (97 \<le> n \<and> n \<le> 122) \<or> (224 \<le> n \<and> n \<le> 254 \<and> n \<noteq> 247)
         then Inr [char_of (n - 32)] else Inr [c])"

fun toUpperCase :: "string \<Rightarrow> string res" where
  "toUpperCase [] = Inr []"
| "toUpperCase (c # cs) =
     and_then (upper_char c) (\<lambda>u. and_then (toUpperCase cs) (\<lambda>us. Inr (u @ us)))"

definition same_letter :: "char \<Rightarrow> char \<Rightarrow> bool" where
  \<comment> \<open>How a character of a pattern with the \<open>i\<close> flag matches, the pattern character
     being an ASCII character: the two are equal up to the case of \<open>A-Z\<close>.\<close>
  "same_letter p c =
     (p = c \<or> (is_upper_az p \<and> lower_char p = c) \<or> (is_upper_az c \<and> lower_char c = p))"

fun starts_with_ci :: "string \<Rightarrow> string \<Rightarrow> bool" where
  "starts_with_ci [] s = True"
| "starts_with_ci (p # ps) [] = False"
| "starts_with_ci (p # ps) (c # cs) = (same_letter p c \<and> starts_with_ci ps cs)"

fun contains_ci :: "string \<Rightarrow> string \<Rightarrow> bool" where
  \<comment> \<open>\<open>s.match(/literal/i)\<close> as a condition.\<close>
  "contains_ci p [] = (p = [])"
| "contains_ci p (c # cs) = (starts_with_ci p (c # cs) \<or> contains_ci p cs)"

definition skip_optional :: "char \<Rightarrow> string \<Rightarrow> string" where
  \<comment> \<open>An optional character \<open>c?\<close> that is followed in the pattern by a different
     character: taken when it is there.\<close>
  "skip_optional c s = (case s of [] \<Rightarrow> [] | d # r \<Rightarrow> if d = c then r else s)"

definition is_washington_dc :: "string \<Rightarrow> bool" where
  \<comment> \<open>\<open>/^washington,? d\.?c\.?/i\<close>\<close>
  "is_washington_dc s =
     (starts_with_ci ''washington'' s \<and>
      starts_with_ci '' d'' (skip_optional (CHR '','') (drop 10 s)) \<and>
      starts_with_ci ''c''
        (skip_optional (CHR ''.'') (drop 2 (skip_optional (CHR '','') (drop 10 s)))))"

definition is_url :: "string \<Rightarrow> bool" where
  \<comment> \<open>\<open>/^https?:\/\//i\<close>\<close>
  "is_url s =
     (starts_with_ci ''http'' s \<and>
      (starts_with ''://'' (drop 4 s) \<or>
       (starts_with_ci ''s'' (drop 4 s) \<and> starts_with ''://'' (drop 5 s))))"

definition multiCodeMatch :: "string \<Rightarrow> string option" where
  \<comment> \<open>\<open>/^(\d{5}),\d{5}/.exec(s)\<close>: the first group when the expression matches.\<close>
  "multiCodeMatch s =
     (if 11 \<le> length s \<and> list_all is_digit (take 5 s) \<and> s ! 5 = CHR '',''
         \<and> list_all is_digit (take 5 (drop 6 s))
      then Some (take 5 s) else None)"

text \<open>
  \<open>subject.replace(re, replacement)\<close> where \<open>re\<close> matches the literal \<open>lit\<close> and has no
  groups: the first occurrence is replaced. In the replacement string \<open>$$\<close> stands for
  \<open>$\<close>, \<open>$&\<close> for the matched text, \<open>$`\<close> for the text before the match and \<open>$'\<close> for
  the text after it; any other \<open>$\<close> stands for itself.
\<close>

fun expand_replacement :: "string \<Rightarrow> string \<Rightarrow> string \<Rightarrow> string \<Rightarrow> string" where
  "expand_replacement preceding matched following [] = []"
| "expand_replacement preceding matched following [c] = [c]"
| "expand_replacement preceding matched following (c # d # r) =
     (if c \<noteq> CHR ''$'' then c # expand_replacement preceding matched following (d # r)
      else if d = CHR ''$'' then CHR ''$'' # expand_replacement preceding matched following r
      else if d = CHR ''&'' then matched @ expand_replacement preceding matched following r
      else if d = CHR 0x60 then preceding @ expand_replacement preceding matched following r
      else if d = CHR 0x27 then following @ expand_replacement preceding matched following r
      else c # expand_replacement preceding matched following (d # r))"

definition replace_literal :: "string \<Rightarrow> string \<Rightarrow> string \<Rightarrow> string" where
  "replace_literal lit replacement subject =
     (let preceding = until_lit lit subject
      in if length preceding = length subject \<and> \<not> starts_with lit []
         then subject
         else preceding @
              expand_replacement preceding lit (drop (length preceding + length lit) subject) replacement @
              drop (length preceding + length lit) subject)"

subsection \<open>Regular expressions built at run time\<close>

text \<open>
  The formatter builds regular expressions from strings of its tables (and, in one place,
  from a key of the input) with \<open>new RegExp(pattern)\<close>. The engine is a parameter of the
  model: \<open>E pattern\<close> is the result of \<open>new RegExp(pattern)\<close>. It is \<open>Inl SyntaxError\<close> when
  the pattern is not a regular expression, and \<open>Inl Unmodelled\<close> when the description \<open>E\<close>
  of the engine does not cover the pattern. For an expression \<open>re\<close>, \<open>rx_test re s\<close> tells
  whether \<open>s.match(re)\<close> finds a match, and \<open>rx_replace re d s\<close> is \<open>s.replace(re, d)\<close>.
\<close>

datatype regexp =
  RegExp (rx_test : "string \<Rightarrow> bool") (rx_replace : "string \<Rightarrow> string \<Rightarrow> string")

type_synonym engine = "string \<Rightarrow> regexp res"

subsection \<open>The tables\<close>

text \<open>
  A country's entry of the table \<open>templates\<close>; an absent property is \<open>None\<close>. The table also
  has members that are template strings (\<open>generic1\<close>, \<open>fallback1\<close>, ...).
\<close>

record country_template =
  address_template :: "string option"
  fallback_template :: "string option"
  replace :: "(string \<times> string) list option"
  postformat_replace :: "(string \<times> string) list option"
  use_country :: "string option"
  change_country :: "string option"
  add_component :: "string option"

datatype template_value = TemplateText string | TemplateEntry country_template

text \<open>
  The name of an entry of a state or county table is a string or an object of name variants,
  given by its values in the order of \<open>Object.values\<close>.
\<close>

datatype code_name = NameString string | NameVariants "string list"

text \<open>
  The tables are static data of the source, thousands of lines of it, and a parameter of
  the model. \<open>abbreviations\<close> maps a language to entries \<open>{component, replacements}\<close>, each
  replacement a pair \<open>{src, dest}\<close>.
\<close>

record tables =
  default_template :: country_template
  templates :: "(string \<times> template_value) list"
  stateCodes :: "(string \<times> (code_name \<times> string) list) list"
  countyCodes :: "(string \<times> (code_name \<times> string) list) list"
  country2lang :: "(string \<times> string list) list"
  abbreviations :: "(string \<times> (string \<times> (string \<times> string) list) list) list"
  countryNames :: "(string \<times> string) list"

definition aliases :: "(string \<times> string) list" where
  \<comment> \<open>The table \<open>aliases\<close>: pairs \<open>(alias, name)\<close>.\<close>
  "aliases =
     [
       (''street_number'', ''house_number''), (''housenumber'', ''house_number''), (''house_number'', ''house_number''),
       (''building'', ''house''), (''floor'', ''floor''), (''door'', ''door''),
       (''infos'', ''infos''), (''addition'', ''addition''), (''public_building'', ''house''),
       (''isolated_dwelling'', ''house''), (''farmland'', ''house''), (''allotments'', ''house''),
       (''house'', ''house''), (''footway'', ''road''), (''street'', ''road''),
       (''street_name'', ''road''), (''residential'', ''road''), (''path'', ''road''),
       (''pedestrian'', ''road''), (''road_reference'', ''road''), (''road_reference_intl'', ''road''),
       (''square'', ''road''), (''road'', ''road''), (''farmland'', ''place''),
       (''allotments'', ''place''), (''place'', ''place''), (''locality'', ''hamlet''),
       (''croft'', ''hamlet''), (''hamlet'', ''hamlet''), (''village'', ''village''),
       (''suburb'', ''neighbourhood''), (''city_district'', ''neighbourhood''), (''commune'', ''neighbourhood''),
       (''district'', ''neighbourhood''), (''quarter'', ''neighbourhood''), (''borough'', ''neighbourhood''),
       (''city_block'', ''neighbourhood''), (''residential'', ''neighbourhood''), (''commercial'', ''neighbourhood''),
       (''industrial'', ''neighbourhood''), (''houses'', ''neighbourhood''), (''subdistrict'', ''neighbourhood''),
       (''subdivision'', ''neighbourhood''), (''ward'', ''neighbourhood''), (''neighbourhood'', ''neighbourhood''),
       (''postal_city'', ''postal_city''), (''town'', ''city''), (''township'', ''city''),
       (''city'', ''city''), (''local_administrative_area'', ''municipality''), (''subcounty'', ''municipality''),
       (''municipality'', ''municipality''), (''county_code'', ''county''), (''department'', ''county''),
       (''county'', ''county''), (''state_district'', ''state_district''), (''postal_code'', ''postcode''),
       (''partial_postcode'', ''postcode''), (''postcode'', ''postcode''), (''province'', ''state''),
       (''state_code'', ''state''), (''territory'', ''state''), (''state'', ''state''),
       (''oblast'', ''region''), (''raion'', ''region''), (''region'', ''region''),
       (''island'', ''island''), (''archipelago'', ''archipelago''), (''country_name'', ''country''),
       (''country'', ''country''), (''country_code'', ''country_code''), (''continent'', ''continent'') ]"

definition knownComponents :: "string list" where
  "knownComponents = map fst aliases"

definition VALID_REPLACEMENT_COMPONENTS :: "string list" where
  "VALID_REPLACEMENT_COMPONENTS = [''state'']"

definition SMALL_DISTRICT_COUNTRIES :: "string list" where
  "SMALL_DISTRICT_COUNTRIES = [''BR'', ''CR'', ''ES'', ''NI'', ''PY'', ''RO'', ''TG'', ''TM'', ''XK'']"

subsection \<open>Options\<close>

text \<open>
  The second argument of \<open>format\<close>. An absent property is \<open>None\<close>; \<open>abbreviate\<close> and
  \<open>appendCountry\<close> are only tested for truth. Leaving the argument out gives the default
  object, which behaves as the object without properties does. The property \<open>output\<close> is
  the field \<open>output_opt\<close>.
\<close>

record options =
  abbreviate :: bool
  appendCountry :: bool
  cleanupPostcode :: "bool option"
  countryCode :: "string option"
  fallbackCountryCode :: "string option"
  output_opt :: "string option"

definition default_options :: options where
  \<comment> \<open>The default value of the second argument of \<open>format\<close>.\<close>
  "default_options =
     \<lparr> abbreviate = False, appendCountry = False, cleanupPostcode = Some True,
       countryCode = None, fallbackCountryCode = None, output_opt = Some ''string'' \<rparr>"

section \<open>The address formatter: operations\<close>

subsection \<open>Reading values and tables\<close>

text \<open>
  The tables are plain objects, which inherit the names of \<open>Object.prototype\<close>. A key that
  comes from the input can be such a name; what the formatter then does with the inherited
  function is not modelled.
\<close>

definition lookup_key :: "(string \<times> 'a) list \<Rightarrow> string \<Rightarrow> 'a option res" where
  \<comment> \<open>\<open>table[k]\<close>\<close>
  "lookup_key table k =
     (case map_of table k of
        Some v \<Rightarrow> Inr (Some v)
      | None \<Rightarrow> if k \<in> set object_prototype_names then Inl Unmodelled else Inr None)"

definition lookup_value :: "(string \<times> 'a) list \<Rightarrow> jsval \<Rightarrow> 'a option res" where
  \<comment> \<open>\<open>table[v]\<close> for a value \<open>v\<close>, which is converted to a property key.\<close>
  "lookup_value table v = and_then (to_string v) (lookup_key table)"

definition read_field :: "fields \<Rightarrow> string \<Rightarrow> jsval res" where
  \<comment> \<open>\<open>input[k]\<close> for any name \<open>k\<close>.\<close>
  "read_field input k =
     (case map_of input k of
        Some v \<Rightarrow> Inr v
      | None \<Rightarrow> if k \<in> set object_prototype_names then Inl Unmodelled else Inr VUndefined)"

fun as_string :: "jsval \<Rightarrow> string res" where
  \<comment> \<open>The receiver of \<open>v.toUpperCase()\<close>, \<open>v.match(re)\<close> or \<open>v.replace(re, d)\<close>. Only a
     string has these methods; an object could have a property of that name, which is not
     modelled.\<close>
  "as_string (VStr s) = Inr s"
| "as_string (VObj ps) = Inl Unmodelled"
| "as_string v = Inl TypeError"

fun is_integer :: "jsval \<Rightarrow> bool" where
  \<comment> \<open>\<open>Number.isInteger(v)\<close>\<close>
  "is_integer (VNum n) = True"
| "is_integer v = False"

definition nonempty :: "string option \<Rightarrow> bool" where
  \<comment> \<open>Is a value that is a string or \<open>undefined\<close> truthy?\<close>
  "nonempty s = (case s of Some (c # cs) \<Rightarrow> True | _ \<Rightarrow> False)"

definition join_values :: "jsval list \<Rightarrow> string res" where
  \<comment> \<open>\<open>values.join(', ')\<close>\<close>
  "join_values vs = and_then (elements_to_string vs) (\<lambda>ss. Inr (join '', '' ss))"

fun fold_res :: "('s \<Rightarrow> 'a \<Rightarrow> 's res) \<Rightarrow> 's \<Rightarrow> 'a list \<Rightarrow> 's res" where
  \<comment> \<open>A \<open>for\<close> loop over a list whose body can throw.\<close>
  "fold_res f s [] = Inr s"
| "fold_res f s (x # xs) = and_then (f s x) (\<lambda>s'. fold_res f s' xs)"

text \<open>
  The member \<open>default\<close> of \<open>templates\<close> is the field \<open>default_template\<close> of the tables; the
  other members are the list \<open>templates\<close>.
\<close>

definition templates_member :: "tables \<Rightarrow> string \<Rightarrow> template_value option res" where
  \<comment> \<open>\<open>templates[k]\<close>\<close>
  "templates_member T k =
     (if k = ''default'' then Inr (Some (TemplateEntry (default_template T)))
      else lookup_key (templates T) k)"

fun truthy_member :: "template_value option \<Rightarrow> bool" where
  "truthy_member None = False"
| "truthy_member (Some (TemplateText s)) = (s \<noteq> [])"
| "truthy_member (Some (TemplateEntry e)) = True"

definition property :: "(country_template \<Rightarrow> 'a option) \<Rightarrow> template_value \<Rightarrow> 'a option" where
  \<comment> \<open>\<open>template.p\<close> for a property \<open>p\<close> that strings do not have.\<close>
  "property p template = (case template of TemplateText s \<Rightarrow> None | TemplateEntry e \<Rightarrow> p e)"

text \<open>
  \<open>template.replace\<close>: the rules of an entry, \<open>undefined\<close>, or for a template string the
  function \<open>String.prototype.replace\<close>, whose \<open>length\<close> is 2.
\<close>

datatype replace_arg = NoRules | Rules "(string \<times> string) list" | StringReplace

fun template_replace :: "template_value \<Rightarrow> replace_arg" where
  "template_replace (TemplateText s) = StringReplace"
| "template_replace (TemplateEntry e) = (case replace e of None \<Rightarrow> NoRules | Some rs \<Rightarrow> Rules rs)"

subsection \<open>\<open>normalizeComponentKeys\<close>\<close>

definition snake_case :: "string \<Rightarrow> string" where
  \<comment> \<open>\<open>key.replace(/([A-Z])/g, '_$1').toLowerCase()\<close>\<close>
  "snake_case k =
     toLowerCase (concat (map (\<lambda>c. if is_upper_az c then [CHR ''_'', c] else [c]) k))"

definition normalize_key :: "fields \<Rightarrow> string \<Rightarrow> fields" where
  \<comment> \<open>The body of the loop, for the key \<open>k\<close>.\<close>
  "normalize_key input k =
     (let snaked = snake_case k
      in if snaked \<in> set knownComponents \<and> \<not> has_field input snaked
         then delete_field
                (if has_field input k then set_field input snaked (get_field input k) else input) k
         else input)"

definition normalizeComponentKeys :: "fields \<Rightarrow> fields" where
  "normalizeComponentKeys input = foldl normalize_key input (keys_of input)"

subsection \<open>\<open>determineCountryCode\<close>\<close>

definition upper_value :: "jsval \<Rightarrow> jsval res" where
  \<comment> \<open>\<open>v && v.toUpperCase()\<close>\<close>
  "upper_value v =
     (if \<not> truthy v then Inr v
      else and_then (as_string v) (\<lambda>s. and_then (toUpperCase s) (\<lambda>u. Inr (VStr u))))"

definition has_template :: "tables \<Rightarrow> jsval \<Rightarrow> bool res" where
  \<comment> \<open>\<open>!!templates[countryCode]\<close>\<close>
  "has_template T v =
     and_then (to_string v) (\<lambda>k. and_then (templates_member T k) (\<lambda>m. Inr (truthy_member m)))"

definition country_name :: "fields \<Rightarrow> string \<Rightarrow> string res" where
  \<comment> \<open>\<open>newCountry\<close> after the substitution. \<open>/\$(\w*)/\<close> matches at the first \<open>$\<close>, and the
     expression built from \<open>\$\<close> and the word after it matches there first as well.\<close>
  "country_name input newCountry =
     (if CHR ''$'' \<notin> set newCountry then Inr newCountry
      else
        let word = takeWhile is_word (drop 1 (dropWhile (\<lambda>c. c \<noteq> CHR ''$'') newCountry))
        in and_then (read_field input word) (\<lambda>v.
             if truthy v
             then and_then (to_string v) (\<lambda>r.
                    Inr (replace_literal (CHR ''$'' # word) r newCountry))
             else Inr (replace_literal (CHR ''$'' # word) [] newCountry)))"

definition apply_change_country :: "fields \<Rightarrow> string option \<Rightarrow> fields res" where
  "apply_change_country input change =
     (case change of
        Some (c # cs) \<Rightarrow>
          and_then (country_name input (c # cs)) (\<lambda>newCountry.
            Inr (set_field input ''country'' (VStr newCountry)))
      | _ \<Rightarrow> Inr input)"

definition apply_add_component :: "fields \<Rightarrow> string option \<Rightarrow> fields" where
  "apply_add_component input add =
     (case add of
        None \<Rightarrow> input
      | Some a \<Rightarrow>
          if CHR ''='' \<in> set a
          then
            let splitted = split_str ''='' a
            in if splitted ! 0 \<in> set VALID_REPLACEMENT_COMPONENTS
               then set_field input (splitted ! 0) (VStr (splitted ! 1))
               else input
          else input)"

definition use_country_step :: "tables \<Rightarrow> fields \<Rightarrow> string \<Rightarrow> (string \<times> fields) res" where
  \<comment> \<open>The block \<open>if (templates[countryCode] && templates[countryCode].use_country)\<close>: the
     new \<open>code\<close> and the input.\<close>
  "use_country_step T input code =
     and_then (templates_member T code) (\<lambda>m.
       case m of
         Some (TemplateEntry e) \<Rightarrow>
           (case use_country e of
              Some (u # us) \<Rightarrow>
                and_then (toUpperCase (u # us)) (\<lambda>target.
                and_then (apply_change_country input (change_country e)) (\<lambda>input1.
                  Inr (target, apply_add_component input1 (add_component e))))
            | _ \<Rightarrow> Inr (code, input))
       | _ \<Rightarrow> Inr (code, input))"

definition curacao :: string where
  "curacao = ''Cura'' @ [CHR 0xE7] @ ''ao''"

definition netherlands_step :: "fields \<Rightarrow> string \<Rightarrow> (string \<times> fields) res" where
  \<comment> \<open>The block \<open>if (countryCode === 'NL' && input.state)\<close>.\<close>
  "netherlands_step input code =
     (if code = ''NL'' \<and> has_field input ''state''
      then
        if get_field input ''state'' = VStr curacao
        then Inr (''CW'', set_field input ''country'' (VStr curacao))
        else and_then (as_string (get_field input ''state'')) (\<lambda>s.
               if contains_ci ''sint maarten'' s
               then Inr (''SX'', set_field input ''country'' (VStr ''Sint Maarten''))
               else if contains_ci ''aruba'' s
               then Inr (''AW'', set_field input ''country'' (VStr ''Aruba''))
               else Inr (code, input))
      else Inr (code, input))"

definition resolve_country :: "tables \<Rightarrow> fields \<Rightarrow> string \<Rightarrow> fields res" where
  \<comment> \<open>\<open>determineCountryCode\<close> from \<open>if (countryCode === 'UK')\<close> on.\<close>
  "resolve_country T input code =
     and_then (use_country_step T input (if code = ''UK'' then ''GB'' else code))
       (\<lambda>(code1, input1).
     and_then (netherlands_step input1 code1) (\<lambda>(code2, input2).
       Inr (set_field input2 ''country_code'' (VStr code2))))"

definition determineCountryCode :: "tables \<Rightarrow> fields \<Rightarrow> string option \<Rightarrow> fields res" where
  "determineCountryCode T input fallback =
     and_then (upper_value (get_field input ''country_code'')) (\<lambda>code.
     and_then (has_template T code) (\<lambda>known.
     and_then
       (case fallback of
          Some (c # cs) \<Rightarrow>
            if known then Inr code
            else and_then (toUpperCase (c # cs)) (\<lambda>u. Inr (VStr u))
        | _ \<Rightarrow> Inr code) (\<lambda>code1.
       case code1 of
         VStr s \<Rightarrow> if length s \<noteq> 2 then Inr input else resolve_country T input s
       | _ \<Rightarrow> Inr input)))"

subsection \<open>\<open>applyAliases\<close>\<close>

definition small_district :: "jsval \<Rightarrow> bool res" where
  \<comment> \<open>\<open>!!SMALL_DISTRICT_COUNTRIES[input.country_code]\<close>\<close>
  "small_district v =
     and_then (lookup_value (map (\<lambda>c. (c, ())) SMALL_DISTRICT_COUNTRIES) v) (\<lambda>m. Inr (m \<noteq> None))"

definition tailoredAliases :: "bool \<Rightarrow> (string \<times> string) list" where
  "tailoredAliases small =
     (if small then aliases
      else filter (\<lambda>a. fst a \<noteq> ''district'') aliases @ [(''district'', ''state_district'')])"

definition apply_alias :: "(string \<times> string) list \<Rightarrow> fields \<Rightarrow> string \<Rightarrow> fields" where
  \<comment> \<open>The body of the loop, for the key \<open>k\<close>.\<close>
  "apply_alias tailored input k =
     (case find (\<lambda>a. fst a = k) tailored of
        None \<Rightarrow> input
      | Some a \<Rightarrow>
          if \<not> has_field input (snd a) then set_field input (snd a) (get_field input (fst a))
          else input)"

definition applyAliases :: "fields \<Rightarrow> fields res" where
  "applyAliases input =
     and_then (small_district (get_field input ''country_code'')) (\<lambda>small.
       Inr (foldl (apply_alias (tailoredAliases small)) input (keys_of input)))"

subsection \<open>\<open>getStateCode\<close> and \<open>getCountyCode\<close>\<close>

definition same_upper :: "string \<Rightarrow> jsval \<Rightarrow> bool res" where
  \<comment> \<open>\<open>name.toUpperCase() === state.toUpperCase()\<close>\<close>
  "same_upper name state =
     and_then (toUpperCase name) (\<lambda>a.
     and_then (as_string state) (\<lambda>s.
     and_then (toUpperCase s) (\<lambda>b. Inr (a = b))))"

fun variants_of :: "code_name \<Rightarrow> string list" where
  \<comment> \<open>\<open>Object.values(e.name)\<close>; for a string these are its characters.\<close>
  "variants_of (NameString s) = map (\<lambda>c. [c]) s"
| "variants_of (NameVariants vs) = vs"

fun find_variant :: "string list \<Rightarrow> jsval \<Rightarrow> bool res" where
  \<comment> \<open>Is \<open>foundVariant\<close> truthy?\<close>
  "find_variant [] state = Inr False"
| "find_variant (v # vs) state =
     and_then (same_upper v state) (\<lambda>same. if same then Inr (v \<noteq> []) else find_variant vs state)"

fun find_code :: "(code_name \<times> string) list \<Rightarrow> jsval \<Rightarrow> jsval res" where
  \<comment> \<open>\<open>found && found.key\<close> for \<open>found = entries.find(...)\<close>.\<close>
  "find_code [] state = Inr VUndefined"
| "find_code ((name, key) # entries) state =
     and_then (case name of NameString s \<Rightarrow> same_upper s state | NameVariants vs \<Rightarrow> Inr False)
       (\<lambda>whole.
          if whole then Inr (VStr key)
          else and_then (find_variant (variants_of name) state) (\<lambda>variant.
                 if variant then Inr (VStr key) else find_code entries state))"

definition getStateCode :: "tables \<Rightarrow> jsval \<Rightarrow> jsval \<Rightarrow> jsval res" where
  "getStateCode T state code =
     and_then (lookup_value (stateCodes T) code) (\<lambda>m.
       case m of None \<Rightarrow> Inr VUndefined | Some entries \<Rightarrow> find_code entries state)"

definition getCountyCode :: "tables \<Rightarrow> jsval \<Rightarrow> jsval \<Rightarrow> jsval res" where
  "getCountyCode T county code =
     and_then (lookup_value (countyCodes T) code) (\<lambda>m.
       case m of None \<Rightarrow> Inr VUndefined | Some entries \<Rightarrow> find_code entries county)"

subsection \<open>\<open>cleanupInput\<close>\<close>

text \<open>
  The steps of \<open>cleanupInput\<close> in the order of the source. \<open>inputKeys\<close> is read once at the
  start and is used by the replacement loop and for the unknown components.
\<close>

definition number_country :: "fields \<Rightarrow> fields" where
  "number_country input =
     (if has_field input ''country'' \<and> has_field input ''state''
         \<and> is_integer (get_field input ''country'')
      then delete_field (set_field input ''country'' (get_field input ''state'')) ''state''
      else input)"

definition apply_rule :: "engine \<Rightarrow> string \<Rightarrow> fields \<Rightarrow> string \<times> string \<Rightarrow> fields res" where
  \<comment> \<open>The body of the inner loop, for the key \<open>k\<close> and one rule.\<close>
  "apply_rule E k input r =
     and_then (E (''^'' @ k @ ''='')) (\<lambda>componentRegex.
       if rx_test componentRegex (fst r)
       then
         and_then (E (rx_replace componentRegex [] (fst r))) (\<lambda>valRegex.
         and_then (as_string (get_field input k)) (\<lambda>s.
           if rx_test valRegex s
           then Inr (set_field input k (VStr (rx_replace valRegex (snd r) s)))
           else Inr input))
       else
         and_then (to_string (get_field input k)) (\<lambda>s.
         and_then (E (fst r)) (\<lambda>re.
           Inr (set_field input k (VStr (rx_replace re (snd r) s))))))"

definition apply_replacements ::
    "engine \<Rightarrow> replace_arg \<Rightarrow> string list \<Rightarrow> fields \<Rightarrow> fields res" where
  \<comment> \<open>For \<open>String.prototype.replace\<close> the loop runs with \<open>replacements.length = 2\<close>: it
     builds the first expression and then reads \<open>replacements[0][0]\<close>, where
     \<open>replacements[0]\<close> is \<open>undefined\<close>.\<close>
  "apply_replacements E replacements' inputKeys input =
     (case replacements' of
        NoRules \<Rightarrow> Inr input
      | Rules rules \<Rightarrow>
          fold_res (\<lambda>input1 k. fold_res (apply_rule E k) input1 rules) input inputKeys
      | StringReplace \<Rightarrow>
          (case inputKeys of
             [] \<Rightarrow> Inr input
           | k # ks \<Rightarrow> and_then (E (''^'' @ k @ ''='')) (\<lambda>componentRegex. Inl TypeError)))"

definition state_code_step :: "tables \<Rightarrow> fields \<Rightarrow> fields res" where
  "state_code_step T input =
     (if \<not> has_field input ''state_code'' \<and> has_field input ''state''
      then
        and_then (getStateCode T (get_field input ''state'') (get_field input ''country_code''))
          (\<lambda>code.
        and_then (as_string (get_field input ''state'')) (\<lambda>s.
          if is_washington_dc s
          then Inr (set_field
                      (set_field
                         (set_field (set_field input ''state_code'' code) ''state_code'' (VStr ''DC''))
                         ''state'' (VStr ''District of Columbia''))
                      ''city'' (VStr ''Washington''))
          else Inr (set_field input ''state_code'' code)))
      else Inr input)"

definition county_code_step :: "tables \<Rightarrow> fields \<Rightarrow> fields res" where
  "county_code_step T input =
     (if \<not> has_field input ''county_code'' \<and> has_field input ''county''
      then
        and_then (getCountyCode T (get_field input ''county'') (get_field input ''country_code''))
          (\<lambda>code. Inr (set_field input ''county_code'' code))
      else Inr input)"

definition unknownComponents :: "string list \<Rightarrow> string list" where
  "unknownComponents inputKeys = filter (\<lambda>k. k \<notin> set knownComponents) inputKeys"

definition attention_step :: "string list \<Rightarrow> fields \<Rightarrow> fields res" where
  "attention_step inputKeys input =
     (case unknownComponents inputKeys of
        [] \<Rightarrow> Inr input
      | u # us \<Rightarrow>
          and_then (join_values (map (get_field input) (u # us))) (\<lambda>s.
            Inr (set_field input ''attention'' (VStr s))))"

fun has_range :: "string \<Rightarrow> bool" where
  \<comment> \<open>\<open>s.match(/\d+;\d+/)\<close> as a condition: the expression matches somewhere exactly when
     a digit, a semicolon and a digit follow each other somewhere.\<close>
  "has_range (a # b # c # s) =
     ((is_digit a \<and> b = CHR '';'' \<and> is_digit c) \<or> has_range (b # c # s))"
| "has_range s = False"

definition postcode_step :: "options \<Rightarrow> fields \<Rightarrow> fields res" where
  "postcode_step options input =
     (if has_field input ''postcode'' \<and> cleanupPostcode options \<noteq> Some False
      then
        and_then (to_string (get_field input ''postcode'')) (\<lambda>postcode.
          if 20 < length postcode
          then Inr (delete_field (set_field input ''postcode'' (VStr postcode)) ''postcode'')
          else if has_range postcode
          then Inr (delete_field (set_field input ''postcode'' (VStr postcode)) ''postcode'')
          else (case multiCodeMatch postcode of
                  Some code \<Rightarrow>
                    Inr (set_field (set_field input ''postcode'' (VStr postcode))
                           ''postcode'' (VStr code))
                | None \<Rightarrow> Inr (set_field input ''postcode'' (VStr postcode))))
      else Inr input)"

definition abbreviate_one :: "engine \<Rightarrow> string \<Rightarrow> fields \<Rightarrow> string \<times> string \<Rightarrow> fields res" where
  \<comment> \<open>One replacement \<open>(src, dest)\<close> on the component.\<close>
  "abbreviate_one E component input r =
     and_then (E ([CHR 0x5C, CHR ''b''] @ fst r @ [CHR 0x5C, CHR ''b''])) (\<lambda>re.
     and_then (as_string (get_field input component)) (\<lambda>s.
       Inr (set_field input component (VStr (rx_replace re (snd r) s)))))"

definition abbreviate_entry ::
    "engine \<Rightarrow> fields \<Rightarrow> string \<times> (string \<times> string) list \<Rightarrow> fields res" where
  "abbreviate_entry E input entry =
     and_then (read_field input (fst entry)) (\<lambda>v.
       if truthy v then fold_res (abbreviate_one E (fst entry)) input (snd entry) else Inr input)"

definition abbreviate_lang :: "tables \<Rightarrow> engine \<Rightarrow> fields \<Rightarrow> string \<Rightarrow> fields res" where
  "abbreviate_lang T E input lang =
     and_then (lookup_key (abbreviations T) lang) (\<lambda>m.
       case m of None \<Rightarrow> Inr input | Some entries \<Rightarrow> fold_res (abbreviate_entry E) input entries)"

definition abbreviate_step :: "tables \<Rightarrow> engine \<Rightarrow> options \<Rightarrow> fields \<Rightarrow> fields res" where
  "abbreviate_step T E options input =
     (if abbreviate options \<and> has_field input ''country_code''
      then
        and_then (lookup_value (country2lang T) (get_field input ''country_code'')) (\<lambda>m.
          case m of None \<Rightarrow> Inr input | Some langs \<Rightarrow> fold_res (abbreviate_lang T E) input langs)
      else Inr input)"

definition url_key :: "fields \<Rightarrow> string \<Rightarrow> fields res" where
  "url_key input k =
     and_then (to_string (get_field input k)) (\<lambda>s.
       if is_url s then Inr (delete_field input k) else Inr input)"

definition url_step :: "fields \<Rightarrow> fields res" where
  "url_step input = fold_res url_key input (keys_of input)"

definition cleanupInput ::
    "tables \<Rightarrow> engine \<Rightarrow> fields \<Rightarrow> replace_arg \<Rightarrow> options \<Rightarrow> fields res" where
  "cleanupInput T E input replacements' options =
     and_then (apply_replacements E replacements' (keys_of input) (number_country input))
       (\<lambda>input1.
     and_then (state_code_step T input1) (\<lambda>input2.
     and_then (county_code_step T input2) (\<lambda>input3.
     and_then (attention_step (keys_of input) input3) (\<lambda>input4.
     and_then (postcode_step options input4) (\<lambda>input5.
     and_then (abbreviate_step T E options input5) url_step)))))"

subsection \<open>\<open>findTemplate\<close> and \<open>chooseTemplateText\<close>\<close>

definition findTemplate :: "tables \<Rightarrow> fields \<Rightarrow> template_value res" where
  "findTemplate T input =
     and_then (to_string (get_field input ''country_code'')) (\<lambda>k.
     and_then (templates_member T k) (\<lambda>m.
       case m of
         Some template \<Rightarrow>
           if truthy_member m then Inr template else Inr (TemplateEntry (default_template T))
       | None \<Rightarrow> Inr (TemplateEntry (default_template T))))"

definition or_else :: "string option \<Rightarrow> string option \<Rightarrow> string option" where
  \<comment> \<open>\<open>a || b\<close> for two values that are strings or \<open>undefined\<close>.\<close>
  "or_else a b = (if nonempty a then a else b)"

definition chooseTemplateText :: "tables \<Rightarrow> template_value \<Rightarrow> fields \<Rightarrow> string option" where
  "chooseTemplateText T template input =
     (let selected = or_else (property address_template template)
                       (address_template (default_template T));
          threshold = 2;
          required = [''road'', ''postcode''];
          missingValuesCnt = length (filter (\<lambda>s. \<not> s) (map (\<lambda>r. has_field input r) required))
      in if missingValuesCnt = threshold
         then or_else (property fallback_template template)
                (fallback_template (default_template T))
         else selected)"

subsection \<open>\<open>renderTemplate\<close>\<close>

definition postformat_one :: "engine \<Rightarrow> string \<Rightarrow> string \<times> string \<Rightarrow> string res" where
  "postformat_one E rendered replacement =
     and_then (E (fst replacement)) (\<lambda>re. Inr (rx_replace re (snd replacement) rendered))"

definition postformat :: "engine \<Rightarrow> (string \<times> string) list option \<Rightarrow> string \<Rightarrow> string res" where
  "postformat E rules rendered =
     (case rules of None \<Rightarrow> Inr rendered | Some rs \<Rightarrow> fold_res (postformat_one E) rendered rs)"

definition templateInput :: "fields \<Rightarrow> jsval" where
  \<comment> \<open>\<open>Object.assign({}, input, { first: ... })\<close>\<close>
  "templateInput input = VObj (set_field input ''first'' (VFun FirstProp))"

definition fallback_join :: "fields \<Rightarrow> string res" where
  \<comment> \<open>The values of the input that are truthy, joined with \<open>', '\<close> and cleaned.\<close>
  "fallback_join input =
     and_then (join_values (filter truthy (map snd input))) (\<lambda>s. Inr (cleanupRender s))"

definition renderTemplate :: "tables \<Rightarrow> engine \<Rightarrow> template_value \<Rightarrow> fields \<Rightarrow> string res" where
  \<comment> \<open>\<open>mustache.render\<close> throws a \<open>TypeError\<close> when the template is not a string.\<close>
  "renderTemplate T E template input =
     (case chooseTemplateText T template input of
        None \<Rightarrow> Inl TypeError
      | Some templateText \<Rightarrow>
          and_then (mustache_render templateText (templateInput input)) (\<lambda>rendered.
          and_then (postformat E (property postformat_replace template) (cleanupRender rendered))
            (\<lambda>replaced.
          and_then
            (if trim (cleanupRender replaced) = [] then fallback_join input
             else Inr (cleanupRender replaced))
            (\<lambda>final. Inr (final @ [CHR 0x0A])))))"

subsection \<open>\<open>format\<close>\<close>

datatype formatted = Text string | Lines "string list"

definition country_names_member :: "tables \<Rightarrow> jsval \<Rightarrow> jsval res" where
  \<comment> \<open>\<open>countryNames$1[v]\<close>. The object has no prototype; its member \<open>default\<close> is the object
     of all names.\<close>
  "country_names_member T v =
     and_then (to_string v) (\<lambda>k.
       if k = ''default'' then Inr (VObj (map (\<lambda>p. (fst p, VStr (snd p))) (countryNames T)))
       else Inr (case map_of (countryNames T) k of None \<Rightarrow> VUndefined | Some n \<Rightarrow> VStr n))"

definition append_country :: "tables \<Rightarrow> options \<Rightarrow> fields \<Rightarrow> fields res" where
  "append_country T options realInput =
     (if appendCountry options
      then and_then (country_names_member T (get_field realInput ''country_code'')) (\<lambda>name.
             if truthy name \<and> \<not> has_field realInput ''country''
             then Inr (set_field realInput ''country'' name)
             else Inr realInput)
      else Inr realInput)"

definition override_country_code :: "options \<Rightarrow> fields \<Rightarrow> fields" where
  \<comment> \<open>\<open>if (options.countryCode) realInput.country_code = options.countryCode\<close>\<close>
  "override_country_code options realInput =
     (case countryCode options of
        Some (c # cs) \<Rightarrow> set_field realInput ''country_code'' (VStr (c # cs))
      | _ \<Rightarrow> realInput)"

definition output_of :: "options \<Rightarrow> string \<Rightarrow> formatted" where
  "output_of options result =
     (if output_opt options = Some ''array''
      then Lines (filter (\<lambda>f. f \<noteq> []) (split_str [CHR 0x0A] result))
      else Text result)"

definition format :: "tables \<Rightarrow> engine \<Rightarrow> fields \<Rightarrow> options \<Rightarrow> formatted res" where
  \<comment> \<open>\<open>realInput\<close> starts as the copy \<open>Object.assign({}, input)\<close>.\<close>
  "format T E input options =
     and_then
       (determineCountryCode T (override_country_code options (normalizeComponentKeys input))
          (fallbackCountryCode options)) (\<lambda>realInput1.
     and_then (append_country T options realInput1) (\<lambda>realInput2.
     and_then (applyAliases realInput2) (\<lambda>realInput3.
     and_then (findTemplate T realInput3) (\<lambda>template.
     and_then (cleanupInput T E realInput3 (template_replace template) options) (\<lambda>realInput4.
     and_then (renderTemplate T E template realInput4) (\<lambda>result.
       Inr (output_of options result)))))))"

subsection \<open>\<open>format\<close> on a store\<close>

text \<open>
  Objects are mutable and are passed by reference. To tell which object an assignment
  changes, the objects live in a store: a list of objects, where the address of an object
  is its position. \<open>Object.assign({}, ...)\<close> puts a new object at the end. The functions
  that \<open>format\<close> calls on \<open>realInput\<close> assign to the properties of the object they are
  given and return that same object: \<open>modify\<close> runs such a function on the object at an
  address.
\<close>

type_synonym store = "fields list"

definition allocate :: "store \<Rightarrow> fields \<Rightarrow> nat \<times> store" where
  \<comment> \<open>The address of the new object, and the store with it.\<close>
  "allocate \<sigma> obj = (length \<sigma>, \<sigma> @ [obj])"

definition modify :: "(fields \<Rightarrow> fields res) \<Rightarrow> nat \<Rightarrow> store \<Rightarrow> store res" where
  "modify f a \<sigma> = and_then (f (\<sigma> ! a)) (\<lambda>obj. Inr (\<sigma>[a := obj]))"

definition renderTemplate_store ::
    "tables \<Rightarrow> engine \<Rightarrow> template_value \<Rightarrow> nat \<Rightarrow> store \<Rightarrow> (string \<times> store) res" where
  \<comment> \<open>\<open>renderTemplate\<close> only reads \<open>input\<close>; \<open>templateInput\<close> is a new object.\<close>
  "renderTemplate_store T E template input \<sigma> =
     (case allocate \<sigma> (set_field (\<sigma> ! input) ''first'' (VFun FirstProp)) of
        (view, \<sigma>1) \<Rightarrow>
          and_then (renderTemplate T E template (\<sigma>1 ! input)) (\<lambda>result. Inr (result, \<sigma>1)))"

definition format_store ::
    "tables \<Rightarrow> engine \<Rightarrow> store \<Rightarrow> nat \<Rightarrow> options \<Rightarrow> (formatted \<times> store) res" where
  \<comment> \<open>\<open>format(input, options)\<close> for the object at the address \<open>input\<close>: what it returns and
     the store afterwards.\<close>
  "format_store T E \<sigma> input options =
     (case allocate \<sigma> (\<sigma> ! input) of
        (realInput, \<sigma>0) \<Rightarrow>
          and_then (modify (\<lambda>obj. Inr (normalizeComponentKeys obj)) realInput \<sigma>0) (\<lambda>\<sigma>1.
          and_then (modify (\<lambda>obj. Inr (override_country_code options obj)) realInput \<sigma>1) (\<lambda>\<sigma>2.
          and_then
            (modify (\<lambda>obj. determineCountryCode T obj (fallbackCountryCode options)) realInput \<sigma>2)
            (\<lambda>\<sigma>3.
          and_then (modify (append_country T options) realInput \<sigma>3) (\<lambda>\<sigma>4.
          and_then (modify applyAliases realInput \<sigma>4) (\<lambda>\<sigma>5.
          and_then (findTemplate T (\<sigma>5 ! realInput)) (\<lambda>template.
          and_then
            (modify (\<lambda>obj. cleanupInput T E obj (template_replace template) options) realInput \<sigma>5)
            (\<lambda>\<sigma>6.
          and_then (renderTemplate_store T E template realInput \<sigma>6) (\<lambda>(result, \<sigma>7).
            Inr (output_of options result, \<sigma>7))))))))))"

section \<open>Example data\<close>

text \<open>
  An excerpt of the tables of the source, for evaluating the formatter on examples: the
  member \<open>default\<close> of \<open>templates\<close>, its member \<open>generic1\<close> (a template string) and the
  entries \<open>GS\<close>, \<open>SH\<close>, \<open>AS\<close> and \<open>BQ\<close>, which redirect to another country. The other tables
  are left empty.
\<close>

definition default_address_template :: string where
  "default_address_template =
     ''{{{attention}}}\<newline>'' @
     ''{{{house}}}\<newline>'' @
     ''{{{floor}}} {{{door}}}\<newline>'' @
     ''{{#first}} {{{road}}} || {{{place}}} || {{{hamlet}}} {{/first}} '' @
     ''{{{house_number}}}\<newline>'' @
     ''{{{addition}}}\<newline>'' @
     ''{{{postcode}}} {{#first}} {{{postal_city}}} || {{{town}}} || '' @
     ''{{{city}}} || {{{village}}} || {{{municipality}}} || {{{hamlet}}} || '' @
     ''{{{county}}} || {{{state}}} || {{/first}}\<newline>'' @
     ''{{{archipelago}}}\<newline>'' @
     ''{{{state}}} {{{county}}}\<newline>'' @
     ''{{{country}}}\<newline>'' @
     ''{{{infos}}}\<newline>''"

definition default_fallback_template :: string where
  "default_fallback_template =
     ''{{{attention}}}\<newline>'' @
     ''{{{house}}}\<newline>'' @
     ''{{{floor}}} {{{door}}}\<newline>'' @
     ''{{{road}}} {{{house_number}}}\<newline>'' @
     ''{{{addition}}}\<newline>'' @
     ''{{{place}}}\<newline>'' @
     ''{{#first}} {{{suburb}}} || {{{city_district}}} || {{{neighbourhood}}} '' @
     ''|| {{{island}}} {{/first}}\<newline>'' @
     ''{{#first}} {{{city}}} || {{{town}}} || {{{village}}} || {{{hamlet}}} '' @
     ''|| {{{municipality}}} {{/first}}\<newline>'' @
     ''{{#first}} || {{{county}}} || {{{state_district}}} || {{{state}}} || '' @
     ''{{{region}}} || {{{island}}}, {{{archipelago}}} {{/first}}\<newline>'' @
     ''{{{state}}} {{{county}}}\<newline>'' @
     ''{{{country}}}\<newline>'' @
     ''{{{infos}}}\<newline>''"

definition generic1 :: string where
  "generic1 =
     ''{{{attention}}}\<newline>'' @
     ''{{{house}}}\<newline>'' @
     ''{{{floor}}} {{{door}}}\<newline>'' @
     ''{{#first}} {{{road}}} || {{{place}}} || {{{hamlet}}} {{/first}} '' @
     ''{{{house_number}}}\<newline>'' @
     ''{{{addition}}}\<newline>'' @
     ''{{{postcode}}} {{#first}} {{{postal_city}}} || {{{town}}} || '' @
     ''{{{city}}} || {{{village}}} || {{{municipality}}} || {{{hamlet}}} || '' @
     ''{{{county}}} || {{{state}}} || {{/first}}\<newline>'' @
     ''{{{archipelago}}}\<newline>'' @
     ''{{{state}}} {{{county}}}\<newline>'' @
     ''{{{country}}}\<newline>'' @
     ''{{{infos}}}\<newline>''"

definition no_entry :: country_template where
  \<comment> \<open>The entry without properties.\<close>
  "no_entry =
     \<lparr> address_template = None, fallback_template = None, replace = None,
       postformat_replace = None, use_country = None, change_country = None,
       add_component = None \<rparr>"

definition example_tables :: tables where
  "example_tables =
     \<lparr> default_template =
         no_entry \<lparr> address_template := Some default_address_template,
                    fallback_template := Some default_fallback_template \<rparr>,
       templates =
         [ (''generic1'', TemplateText generic1),
           (''GS'', TemplateEntry
              (no_entry \<lparr> use_country := Some ''GB'', change_country := Some ''United Kingdom'',
                          add_component := Some ''county=South Georgia'' \<rparr>)),
           (''SH'', TemplateEntry
              (no_entry \<lparr> use_country := Some ''GB'',
                          change_country := Some ''$state, United Kingdom'' \<rparr>)),
           (''AS'', TemplateEntry
              (no_entry \<lparr> use_country := Some ''US'',
                          change_country := Some ''United States of America'',
                          add_component := Some ''state=American Samoa'' \<rparr>)),
           (''BQ'', TemplateEntry
              (no_entry \<lparr> use_country := Some ''NL'',
                          change_country := Some ''Caribbean Netherlands'' \<rparr>)) ],
       stateCodes = [], countyCodes = [], country2lang = [], abbreviations = [],
       countryNames = [] \<rparr>"

text \<open>
  A description of the engine that covers the patterns made of a \<open>^\<close> and characters that
  stand for themselves: such a pattern matches the strings that begin with these
  characters.
\<close>

definition is_literal :: "char \<Rightarrow> bool" where
  \<comment> \<open>Letters, digits, the underscore, the space and \<open>=\<close> have no special meaning in a
     regular expression.\<close>
  "is_literal c = (is_word c \<or> c = CHR '' '' \<or> c = CHR ''='')"

definition anchored_literals :: engine where
  "anchored_literals pattern =
     (case pattern of
        [] \<Rightarrow> Inl Unmodelled
      | c # lit \<Rightarrow>
          if c = CHR ''^'' \<and> list_all is_literal lit
          then Inr (RegExp (starts_with lit)
                      (\<lambda>d s. if starts_with lit s
                             then expand_replacement [] lit (drop_str lit s) d @ drop_str lit s
                             else s))
          else Inl Unmodelled)"

section \<open>Properties of the operations\<close>

subsection \<open>Objects\<close>

lemma set_field_same: "map_of input k = Some v \<Longrightarrow> set_field input k v = input"
  by (induction input) (auto split: if_splits)

lemma set_field_twice: "set_field (set_field input k v) k w = set_field input k w"
  by (induction input) auto

lemma delete_set_field: "delete_field (set_field input k v) k = delete_field input k"
  by (induction input) (auto simp: delete_field_def)

lemma postcode_step_falsy:
  "\<not> has_field input ''postcode'' \<Longrightarrow> postcode_step options input = Inr input"
  by (simp add: postcode_step_def)

lemma get_set_field:
  "get_field (set_field input k v) k' = (if k' = k then v else get_field input k')"
  by (induction input) (auto simp: get_field_def)

subsection \<open>Unknown components\<close>

lemma attention_unknown: "''attention'' \<notin> set knownComponents"
  by code_simp

lemma elements_to_string_strings: "elements_to_string (map VStr ss) = Inr ss"
  by (induction ss) (simp_all add: and_then_def)

lemma join_values_strings: "join_values (map VStr ss) = Inr (join '', '' ss)"
  by (simp add: join_values_def elements_to_string_strings and_then_def)

subsection \<open>Sections\<close>

lemma render_elements_fold:
  "render_elements sub orig ctx children buffer xs =
     fold_res (\<lambda>b x. and_then (renderTokens sub orig (push ctx x) children) (\<lambda>s. Inr (b @ s)))
       buffer xs"
  by (induction xs arbitrary: buffer) (simp_all add: and_then_def split: sum.splits)

lemma render_elements_concat:
  assumes "\<forall>x\<in>set xs. renderTokens sub orig (push ctx x) children = Inr (out x)"
  shows "render_elements sub orig ctx children buffer xs = Inr (buffer @ concat (map out xs))"
  using assms by (induction xs arbitrary: buffer) (simp_all add: and_then_def)

lemma parse_array_section:
  "parseTemplate ''{{#a}}{{.}};{{/a}}'' =
     Inr [Token (FToken THash ''a'' 0 6 None)
            (Some [Token (FToken TName ''.'' 6 11 None) None None,
                   Token (FToken TText '';'' 11 12 None) None None])
            (Some 12)]"
  by code_simp

lemma lookup_array_section:
  "lookup (Context (VObj [(''a'', VArr [VStr ''x'', VStr ''y'', VStr ''z''])]) None) ''a''
     = Inr (VArr [VStr ''x'', VStr ''y'', VStr ''z''])"
  by code_simp

lemma elements_array_section:
  "list_all
     (\<lambda>x. renderTokens render ''{{#a}}{{.}};{{/a}}''
            (push (Context (VObj [(''a'', VArr [VStr ''x'', VStr ''y'', VStr ''z''])]) None) x)
            (Some [Token (FToken TName ''.'' 6 11 None) None None,
                   Token (FToken TText '';'' 11 12 None) None None])
          = Inr (case x of VStr s \<Rightarrow> s @ '';'' | _ \<Rightarrow> []))
     [VStr ''x'', VStr ''y'', VStr ''z'']"
  by code_simp

subsection \<open>The helper \<open>first\<close>\<close>

lemma bar_not_space: "\<not> is_space (CHR ''|'')"
  by code_simp

lemma starts_with_bars_spaces:
  "list_all is_space w \<Longrightarrow> dropWhile is_space (w @ CHR ''|'' # rest) = CHR ''|'' # rest"
  by (induction w) (simp_all add: bar_not_space)

lemma split_bars_separator:
  assumes "list_all is_space w"
  shows "split_bars_from cur (w @ ''||'' @ rest) = rev cur # split_bars_from [] (dropWhile is_space rest)"
proof (cases w)
  case Nil
  then show ?thesis by (simp add: bar_not_space)
next
  case (Cons c w')
  have "dropWhile is_space (c # w' @ ''||'' @ rest) = ''||'' @ rest"
    using starts_with_bars_spaces [OF assms, of "CHR ''|'' # rest"] Cons by simp
  then show ?thesis using Cons by simp
qed

lemma no_separator_start:
  assumes "b \<noteq> []" and "\<not> is_space (last b)" and "last b \<noteq> CHR ''|''"
    and "\<forall>i. \<not> starts_with ''||'' (drop i b)"
  shows "\<not> starts_with ''||'' (dropWhile is_space (b @ t))"
  using assms
proof (induction b)
  case Nil
  then show ?case by simp
next
  case (Cons c b')
  show ?case
  proof (cases "is_space c")
    case True
    with Cons.prems have ne: "b' \<noteq> []" by auto
    have "\<forall>i. \<not> starts_with ''||'' (drop i b')"
    proof
      fix i
      from Cons.prems(4) have "\<not> starts_with ''||'' (drop (Suc i) (c # b'))" by blast
      then show "\<not> starts_with ''||'' (drop i b')" by simp
    qed
    with Cons.IH ne Cons.prems have "\<not> starts_with ''||'' (dropWhile is_space (b' @ t))"
      by simp
    with True show ?thesis by simp
  next
    case False
    from Cons.prems(4) have z: "\<not> starts_with ''||'' (drop 0 (c # b'))" by blast
    show ?thesis
    proof (cases b')
      case Nil
      with Cons.prems False show ?thesis by simp
    next
      case (Cons d b'')
      with z False show ?thesis by simp
    qed
  qed
qed

lemma split_bars_through:
  assumes "b = [] \<or> (\<not> is_space (last b) \<and> last b \<noteq> CHR ''|'')"
    and "\<forall>i. \<not> starts_with ''||'' (drop i b)"
  shows "split_bars_from cur (b @ t) = split_bars_from (rev b @ cur) t"
  using assms
proof (induction b arbitrary: cur)
  case Nil
  then show ?case by simp
next
  case (Cons c b')
  have n: "\<not> starts_with ''||'' (dropWhile is_space ((c # b') @ t))"
    using no_separator_start [of "c # b'" t] Cons.prems by simp
  have p1: "b' = [] \<or> (\<not> is_space (last b') \<and> last b' \<noteq> CHR ''|'')"
    using Cons.prems(1) by (cases b') auto
  have p2: "\<forall>i. \<not> starts_with ''||'' (drop i b')"
  proof
    fix i
    from Cons.prems(2) have "\<not> starts_with ''||'' (drop (Suc i) (c # b'))" by blast
    then show "\<not> starts_with ''||'' (drop i b')" by simp
  qed
  have "split_bars_from cur ((c # b') @ t) = split_bars_from (c # cur) (b' @ t)"
    using n by simp
  also have "\<dots> = split_bars_from (rev b' @ c # cur) t"
    using Cons.IH [OF p1 p2] .
  finally show ?case by simp
qed

lemma first_of_middle:
  assumes "list_all is_space w1" "list_all is_space w2" "list_all is_space w3" "list_all is_space w4"
    and "b \<noteq> []" "\<not> is_space (hd b)" "\<not> is_space (last b)" "last b \<noteq> CHR ''|''"
    and "\<forall>i. \<not> starts_with ''||'' (drop i b)"
  shows "first_of (w1 @ ''||'' @ w2 @ b @ w3 @ ''||'' @ w4) = b"
proof -
  have d2: "dropWhile is_space (w2 @ b @ w3 @ ''||'' @ w4) = b @ w3 @ ''||'' @ w4"
    using assms(2,5,6) by (induction w2) (auto simp: neq_Nil_conv)
  have d4: "dropWhile is_space w4 = []"
    using assms(4) by (induction w4) auto
  have "split_bars_from [] (w1 @ ''||'' @ w2 @ b @ w3 @ ''||'' @ w4)
          = [] # split_bars_from [] (b @ w3 @ ''||'' @ w4)"
    using split_bars_separator [OF assms(1), of "[]" "w2 @ b @ w3 @ ''||'' @ w4"] d2 by simp
  also have "split_bars_from [] (b @ w3 @ ''||'' @ w4) = split_bars_from (rev b) (w3 @ ''||'' @ w4)"
    using split_bars_through [of b "[]" "w3 @ ''||'' @ w4"] assms(7,8,9) by simp
  also have "\<dots> = b # split_bars_from [] []"
    using split_bars_separator [OF assms(3), of "rev b" w4] d4 by simp
  finally show ?thesis
    using assms(5) by (simp add: first_of_def)
qed

lemma map_of_set_field: "map_of (set_field input k v) k = Some v"
  by (induction input) auto

lemma lookup_first:
  "lookup (Context (templateInput input) None) ''first'' = Inr (VFun FirstLambda)"
  by (simp add: lookup_def object_prototype_names_def view_hit_def is_dotted_def hasProperty_def
      get_member_def templateInput_def and_then_def map_of_set_field)

lemma first_lookup_example:
  "lookup (Context (templateInput [(''b'', VStr ''x'')]) None) ''first'' = Inr (VFun FirstLambda)"
  by (rule lookup_first)

lemma first_body_example:
  "render (js_slice ''{{#first}} {{{a}}} || {{{b}}} || {{{c}}} {{/first}}'' 10 (Some 41))
     (Context (templateInput [(''b'', VStr ''x'')]) None) = Inr ''  || x ||  ''"
  by code_simp

section \<open>The claims\<close>

text \<open>
  Claim C3: the cleanup pass is idempotent, \<open>cleanupRender(cleanupRender(x))\<close> equals
  \<open>cleanupRender(x)\<close> for every string \<open>x\<close>. The code does not have this property. Each
  expression of the table is applied with \<open>replace\<close> and no \<open>g\<close> flag, so one pass collapses
  only the first run of spaces: the text \<open>a  b  c\<close> (two spaces twice) comes out as
  \<open>a b  c\<close>, and a second pass turns that into \<open>a b c\<close>.
\<close>

theorem cleanupRender_second_pass_differs:
  "cleanupRender ''a  b  c'' = ''a b  c'' \<and>
   cleanupRender (cleanupRender ''a  b  c'') = ''a b c'' \<and>
   cleanupRender (cleanupRender ''a  b  c'') \<noteq> cleanupRender ''a  b  c''"
  by code_simp

text \<open>
  Claim C4: \<open>chooseTemplateText\<close> selects the fallback template exactly when the fields
  \<open>road\<close> and \<open>postcode\<close> are both absent, and the address template when one of them is
  present. A field counts as absent when its value is falsy (missing, \<open>undefined\<close> or the
  empty string). Each of the two is the entry's own template when that is a non-empty
  string, and the one of the entry \<open>default\<close> otherwise.
\<close>

theorem chooseTemplateText_fallback_iff:
  "chooseTemplateText T template input =
     (if \<not> has_field input ''road'' \<and> \<not> has_field input ''postcode''
      then or_else (property fallback_template template) (fallback_template (default_template T))
      else or_else (property address_template template) (address_template (default_template T)))"
  by (simp add: chooseTemplateText_def)

text \<open>
  Claim C5, as the source has it: for every input whose postcode is truthy, the postcode is
  first converted to a string \<open>p\<close>. When the option \<open>cleanupPostcode\<close> is not \<open>false\<close>, the
  postcode is deleted when \<open>p\<close> is longer than 20 characters or contains a range \<open>\d+;\d+\<close>;
  otherwise, when \<open>p\<close> starts with five digits, a comma and five digits, the postcode
  becomes these first five digits; any other postcode becomes \<open>p\<close>, which for a postcode
  that is a string leaves the input as it is. With \<open>cleanupPostcode\<close> \<open>false\<close>, or with
  a postcode that is falsy, nothing changes.
\<close>

theorem postcode_step_rules:
  "(\<not> has_field input ''postcode'' \<longrightarrow> postcode_step options input = Inr input) \<and>
   (has_field input ''postcode'' \<and> to_string (get_field input ''postcode'') = Inr p \<longrightarrow>
      postcode_step options input =
        Inr (if cleanupPostcode options = Some False then input
             else if 20 < length p \<or> has_range p then delete_field input ''postcode''
             else (case multiCodeMatch p of
                     Some code \<Rightarrow> set_field input ''postcode'' (VStr code)
                   | None \<Rightarrow> set_field input ''postcode'' (VStr p))) \<and>
      (get_field input ''postcode'' = VStr p \<longrightarrow>
         set_field input ''postcode'' (VStr p) = input))"
proof -
  have same: "set_field input ''postcode'' (VStr p) = input"
    if "get_field input ''postcode'' = VStr p"
  proof -
    from that have "map_of input ''postcode'' = Some (VStr p)"
      by (auto simp: get_field_def split: option.splits)
    then show ?thesis by (rule set_field_same)
  qed
  have rules: "postcode_step options input =
           Inr (if cleanupPostcode options = Some False then input
                else if 20 < length p \<or> has_range p then delete_field input ''postcode''
                else (case multiCodeMatch p of
                        Some code \<Rightarrow> set_field input ''postcode'' (VStr code)
                      | None \<Rightarrow> set_field input ''postcode'' (VStr p)))"
    if "has_field input ''postcode''" and "to_string (get_field input ''postcode'') = Inr p"
    using that
    by (simp add: postcode_step_def and_then_def set_field_twice delete_set_field
        split: option.splits)
  from same rules postcode_step_falsy [of input options] show ?thesis by blast
qed

theorem postcode_step_rules_witness:
  "postcode_step default_options [(''postcode'', VStr ''12345,67890'')]
     = Inr [(''postcode'', VStr ''12345'')] \<and>
   postcode_step default_options [(''postcode'', VStr ''12345;67890'')] = Inr [] \<and>
   postcode_step default_options [(''postcode'', VArr [VStr ''12345'', VStr ''67890''])]
     = Inr [(''postcode'', VStr ''12345'')] \<and>
   postcode_step default_options [(''postcode'', VStr ''AB1 2CD'')]
     = Inr [(''postcode'', VStr ''AB1 2CD'')]"
  using postcode_step_rules [of "[(''postcode'', VStr ''12345,67890'')]" default_options
          "''12345,67890''"]
        postcode_step_rules [of "[(''postcode'', VStr ''12345;67890'')]" default_options
          "''12345;67890''"]
        postcode_step_rules [of "[(''postcode'', VArr [VStr ''12345'', VStr ''67890''])]"
          default_options "''12345,67890''"]
        postcode_step_rules [of "[(''postcode'', VStr ''AB1 2CD'')]" default_options
          "''AB1 2CD''"]
  by (simp add: get_field_def has_field_def default_options_def multiCodeMatch_def is_digit_def
      delete_field_def and_then_def)

text \<open>
  The claim says that a comma-joined value of several postcodes is cut down to the first
  one. Two postcodes of four digits joined by a comma stay as they are.
\<close>

theorem postcode_four_digits_kept:
  "postcode_step default_options [(''postcode'', VStr ''1234,5678'')]
     = Inr [(''postcode'', VStr ''1234,5678'')]"
  by code_simp

text \<open>
  Claim C8: what a section token renders, by the value \<open>v\<close> that the lookup of its name
  gives. A falsy value gives \<open>undefined\<close> and an empty array the empty string, and neither
  adds anything to the output. An array renders the children once for each element, in the
  order of the elements, in the context with the element pushed, and the section is the
  concatenation of the results. An object, a non-empty string or a number other than 0
  renders the children once in the context with the value pushed.
\<close>

theorem section_dispatch:
  assumes "f_type ft = THash" and "lookup ctx (f_value ft) = Inr v"
  shows "(\<not> truthy v \<longrightarrow>
            render_token sub orig ctx (Token ft children close) = Inr VUndefined) \<and>
         (v = VArr [] \<longrightarrow>
            render_token sub orig ctx (Token ft children close) = Inr (VStr [])) \<and>
         append_value buffer VUndefined = Inr buffer \<and>
         append_value buffer (VStr []) = Inr buffer \<and>
         (v = VArr xs \<longrightarrow>
            render_token sub orig ctx (Token ft children close)
              = and_then
                  (fold_res
                     (\<lambda>b x. and_then (renderTokens sub orig (push ctx x) children)
                              (\<lambda>s. Inr (b @ s)))
                     [] xs)
                  (\<lambda>s. Inr (VStr s))) \<and>
         (v = VArr xs \<and>
              (\<forall>x\<in>set xs. renderTokens sub orig (push ctx x) children = Inr (out x)) \<longrightarrow>
            render_token sub orig ctx (Token ft children close)
              = Inr (VStr (concat (map out xs)))) \<and>
         ((\<exists>ps. v = VObj ps) \<or> (\<exists>s. v = VStr s \<and> s \<noteq> []) \<or> (\<exists>n. v = VNum n \<and> n \<noteq> 0) \<longrightarrow>
            render_token sub orig ctx (Token ft children close)
              = and_then (renderTokens sub orig (push ctx v) children) (\<lambda>s. Inr (VStr s)))"
proof -
  have t: "render_token sub orig ctx (Token ft children close)
             = renderSection sub orig ctx (Token ft children close) v"
    using assms by (simp add: and_then_def)
  have falsy: "\<not> truthy v \<Longrightarrow>
      renderSection sub orig ctx (Token ft children close) v = Inr VUndefined"
    by simp
  have empty: "renderSection sub orig ctx (Token ft children close) (VArr []) = Inr (VStr [])"
    by (simp add: and_then_def)
  have unchanged: "append_value buffer VUndefined = Inr buffer"
    "append_value buffer (VStr []) = Inr buffer"
    by (simp_all add: append_value_def and_then_def)
  have each: "renderSection sub orig ctx (Token ft children close) (VArr xs)
                = and_then
                    (fold_res
                       (\<lambda>b x. and_then (renderTokens sub orig (push ctx x) children)
                                (\<lambda>s. Inr (b @ s)))
                       [] xs)
                    (\<lambda>s. Inr (VStr s))"
    by (simp add: render_elements_fold)
  have elements: "renderSection sub orig ctx (Token ft children close) (VArr xs)
                    = Inr (VStr (concat (map out xs)))"
    if "\<forall>x\<in>set xs. renderTokens sub orig (push ctx x) children = Inr (out x)"
    using render_elements_concat [OF that, of "[]"] by (simp add: and_then_def)
  have once: "renderSection sub orig ctx (Token ft children close) v
                = and_then (renderTokens sub orig (push ctx v) children) (\<lambda>s. Inr (VStr s))"
    if "(\<exists>ps. v = VObj ps) \<or> (\<exists>s. v = VStr s \<and> s \<noteq> []) \<or> (\<exists>n. v = VNum n \<and> n \<noteq> 0)"
    using that by (auto simp del: renderTokens.simps)
  show ?thesis
    unfolding t using falsy empty unchanged each elements once by blast
qed

theorem section_dispatch_witness:
  "render_token render ''{{#a}}{{.}};{{/a}}''
     (Context (VObj [(''a'', VArr [VStr ''x'', VStr ''y'', VStr ''z''])]) None)
     (Token (FToken THash ''a'' 0 6 None)
        (Some [Token (FToken TName ''.'' 6 11 None) None None,
               Token (FToken TText '';'' 11 12 None) None None])
        (Some 12))
     = Inr (VStr ''x;y;z;'')"
  using section_dispatch [of "FToken THash ''a'' 0 6 None"
      "Context (VObj [(''a'', VArr [VStr ''x'', VStr ''y'', VStr ''z''])]) None"
      "VArr [VStr ''x'', VStr ''y'', VStr ''z'']" render "''{{#a}}{{.}};{{/a}}''"
      "Some [Token (FToken TName ''.'' 6 11 None) None None,
             Token (FToken TText '';'' 11 12 None) None None]"
      "Some 12" "[]" "[VStr ''x'', VStr ''y'', VStr ''z'']"
      "\<lambda>x. case x of VStr s \<Rightarrow> s @ '';'' | _ \<Rightarrow> []"]
    lookup_array_section elements_array_section
  by (simp add: and_then_def del: render_token.simps renderSection.simps renderTokens.simps)

text \<open>
  Claim C10: \<open>attention\<close> is not a known component. When some key of the input, as read at
  the start of \<open>cleanupInput\<close>, is not a known component (a key \<open>attention\<close> is one such),
  the step sets the field \<open>attention\<close> to the values these keys have at that moment, in the
  order of the keys, joined with a comma and a space; a value \<open>attention\<close> had before is
  replaced, and no other field changes.
\<close>

theorem attention_from_unknown_keys:
  assumes "unknownComponents inputKeys \<noteq> []"
  shows "''attention'' \<notin> set knownComponents \<and>
         (''attention'' \<in> set inputKeys \<longrightarrow> ''attention'' \<in> set (unknownComponents inputKeys)) \<and>
         attention_step inputKeys input =
           and_then (join_values (map (get_field input) (unknownComponents inputKeys)))
             (\<lambda>s. Inr (set_field input ''attention'' (VStr s))) \<and>
         (\<forall>s. join_values (map (get_field input) (unknownComponents inputKeys)) = Inr s \<longrightarrow>
            (\<exists>input'. attention_step inputKeys input = Inr input' \<and>
               get_field input' ''attention'' = VStr s \<and>
               (\<forall>k. k \<noteq> ''attention'' \<longrightarrow> get_field input' k = get_field input k)))"
proof -
  have known: "''attention'' \<notin> set knownComponents"
    by (rule attention_unknown)
  have step: "attention_step inputKeys input =
           and_then (join_values (map (get_field input) (unknownComponents inputKeys)))
             (\<lambda>s. Inr (set_field input ''attention'' (VStr s)))"
    using assms by (cases "unknownComponents inputKeys") (simp_all add: attention_step_def)
  show ?thesis
    using known step by (simp add: unknownComponents_def and_then_def get_set_field)
qed

theorem attention_from_unknown_keys_witness:
  "attention_step [''foo'', ''road'', ''attention'']
     [(''foo'', VStr ''bar''), (''road'', VStr ''Main St''), (''attention'', VStr ''Reception'')]
   = Inr [(''foo'', VStr ''bar''), (''road'', VStr ''Main St''),
          (''attention'', VStr ''bar, Reception'')]"
proof -
  have u: "unknownComponents [''foo'', ''road'', ''attention''] = [''foo'', ''attention'']"
    by code_simp
  show ?thesis
    using attention_from_unknown_keys [of "[''foo'', ''road'', ''attention'']"
      "[(''foo'', VStr ''bar''), (''road'', VStr ''Main St''), (''attention'', VStr ''Reception'')]"]
    by (simp add: u get_field_def join_values_def and_then_def)
qed

text \<open>
  Claim C7, as the source has it. A section whose name looks up to the function that
  \<open>first\<close> returns renders the text between its tags once, in the current context, and
  gives \<open>first_of\<close> of the result: the result is split at every \<open>||\<close> together with the
  white space around it, the empty pieces are dropped, and the first piece left is the
  output, or the empty string when none is left. The view that \<open>renderTemplate\<close> builds
  has that function under \<open>first\<close>. When the rendered text is \<open>a || b || c\<close> with \<open>a\<close> and \<open>c\<close>
  blank, the output is \<open>b\<close> provided that \<open>b\<close> is not empty, has no white space at either
  end, contains no \<open>||\<close> and does not end with \<open>|\<close>.
\<close>

theorem first_section:
  assumes "f_type ft = THash" and "lookup ctx (f_value ft) = Inr (VFun FirstLambda)"
  shows "render_token sub orig ctx (Token ft children close)
           = and_then (sub (js_slice orig (f_end ft) close) ctx) (\<lambda>r. Inr (VStr (first_of r))) \<and>
         first_of r = (case filter (\<lambda>a. a \<noteq> []) (split_bars_from [] r) of
                         [] \<Rightarrow> [] | p # ps \<Rightarrow> p) \<and>
         (list_all is_space w1 \<and> list_all is_space w2 \<and> list_all is_space w3
            \<and> list_all is_space w4 \<and> b \<noteq> [] \<and> \<not> is_space (hd b) \<and> \<not> is_space (last b)
            \<and> last b \<noteq> CHR ''|'' \<and> (\<forall>i. \<not> starts_with ''||'' (drop i b)) \<longrightarrow>
          first_of (w1 @ ''||'' @ w2 @ b @ w3 @ ''||'' @ w4) = b) \<and>
         lookup (Context (templateInput input) None) ''first'' = Inr (VFun FirstLambda)"
proof -
  have t: "render_token sub orig ctx (Token ft children close)
             = and_then (sub (js_slice orig (f_end ft) close) ctx) (\<lambda>r. Inr (VStr (first_of r)))"
    using assms by (simp add: and_then_def)
  have f: "first_of r = (case filter (\<lambda>a. a \<noteq> []) (split_bars_from [] r) of
                         [] \<Rightarrow> [] | p # ps \<Rightarrow> p)"
    by (simp add: first_of_def)
  show ?thesis
    using t f first_of_middle [of w1 w2 w3 w4 b] lookup_first [of input] by blast
qed

theorem first_section_witness:
  "render_token render ''{{#first}} {{{a}}} || {{{b}}} || {{{c}}} {{/first}}''
     (Context (templateInput [(''b'', VStr ''x'')]) None)
     (Token (FToken THash ''first'' 0 10 None)
        (Some
          [Token (FToken TText '' '' 10 11 None) None None,
           Token (FToken TAmp ''a'' 11 18 None) None None,
           Token (FToken TText '' || '' 18 22 None) None None,
           Token (FToken TAmp ''b'' 22 29 None) None None,
           Token (FToken TText '' || '' 29 33 None) None None,
           Token (FToken TAmp ''c'' 33 40 None) None None,
           Token (FToken TText '' '' 40 41 None) None None])
        (Some 41))
     = Inr (VStr ''x'')"
proof -
  have s: "list_all is_space ''  ''" "list_all is_space '' ''"
    by code_simp+
  have n: "\<not> starts_with ''||'' (drop i ''x'')" for i
    by (cases i) simp_all
  have x: "\<not> is_space (CHR ''x'')"
    by code_simp
  show ?thesis
    using first_section [of "FToken THash ''first'' 0 10 None"
        "Context (templateInput [(''b'', VStr ''x'')]) None" render
        "''{{#first}} {{{a}}} || {{{b}}} || {{{c}}} {{/first}}''"
        "Some
          [Token (FToken TText '' '' 10 11 None) None None,
           Token (FToken TAmp ''a'' 11 18 None) None None,
           Token (FToken TText '' || '' 18 22 None) None None,
           Token (FToken TAmp ''b'' 22 29 None) None None,
           Token (FToken TText '' || '' 29 33 None) None None,
           Token (FToken TAmp ''c'' 33 40 None) None None,
           Token (FToken TText '' '' 40 41 None) None None]"
        "Some 41" "[]" "''  ''" "'' ''" "'' ''" "''  ''" "''x''" "[]"]
      first_lookup_example first_body_example s n x
    by (simp add: and_then_def del: render_token.simps render.simps)
qed

text \<open>
  The claim says that the section renders exactly as the alternative \<open>B\<close> alone when only
  \<open>B\<close> renders non-empty. White space at the ends of what \<open>B\<close> renders is removed with the
  separator, and a \<open>||\<close> inside it separates alternatives as well.
\<close>

theorem first_section_strips_space:
  "mustache_render ''{{#first}} {{{a}}} || {{{b}}} || {{{c}}} {{/first}}''
     (templateInput [(''b'', VStr '' x'')]) = Inr ''x'' \<and>
   mustache_render ''{{{b}}}'' (templateInput [(''b'', VStr '' x'')]) = Inr '' x'' \<and>
   mustache_render ''{{#first}} {{{a}}} || {{{b}}} || {{{c}}} {{/first}}''
     (templateInput [(''b'', VStr ''Main St || 5'')]) = Inr ''Main St'' \<and>
   mustache_render ''{{{b}}}'' (templateInput [(''b'', VStr ''Main St || 5'')])
     = Inr ''Main St || 5''"
  by code_simp

end
